theory Spec2Isabelle
  imports Complex_Main "HOL-Library.Product_Lexorder"
begin

section \<open>The posts dashboard (dash.py): data cleaning and aggregations\<close>

text \<open>
  dash.py reads posts.csv into a pandas DataFrame, cleans it in \<open>load_data\<close>
  and charts six aggregations in \<open>main\<close>. The embedding follows the file
  top to bottom. A DataFrame is a list of rows, each row a record of its columns;
  a column that changes dtype during the run (text, number, datetime) holds
  dynamically typed cells.
\<close>

subsection \<open>Cells, timestamps and rows\<close>

text \<open>
  A wall-clock reading, and a pandas Timestamp: a wall-clock reading with the
  offset of its zone in minutes east of UTC (\<open>None\<close>: tz-naive). The accessors
  \<open>.dt.year\<close>, \<open>.dt.month\<close>, ... read the wall-clock fields.
\<close>

record civil =
  cyear :: int
  cmonth :: int
  cday :: int
  chour :: int
  cminute :: int
  csecond :: int

record pd_timestamp = civil +
  tzinfo :: "int option"

text \<open>
  A DataFrame cell: missing (\<open>NaN\<close>), text as read from the CSV, a number,
  a timezone-aware UTC datetime (what \<open>pd.to_datetime(..., utc=True)\<close> stores),
  or the missing datetime \<open>NaT\<close>.
\<close>

datatype cell = NaN | Str string | Num real | Utc civil | NaT

text \<open>The value of \<open>timestamp_parsed\<close>: a Timestamp, or \<open>None\<close> for \<open>pd.NaT\<close>.\<close>

type_synonym datetime = "pd_timestamp option"

text \<open>The outcome of a call inside \<open>try\<close>: it raises, or it returns a value.\<close>

datatype 'a attempt = Raises | Returns (result: 'a)

text \<open>A row of the frame returned by \<open>pd.read_csv\<close>, with its index label.\<close>

record row =
  idx :: nat
  timestamp :: cell
  username :: cell
  followers_count :: cell
  media_count :: cell

record dataframe =
  columns :: "string list"
  rows :: "row list"

text \<open>A row of \<open>df_clean\<close>: the CSV columns and the columns load_data derives.\<close>

record clean_row = row +
  timestamp_parsed :: pd_timestamp
  year :: int
  month :: int
  day :: int
  hour :: int
  weekday :: string
  date :: "int \<times> int \<times> int"

text \<open>
  The two \<open>st.error\<close> exits of load_data. Both return Python's \<open>None\<close>; the
  constructor records which message was shown: "Nenhum timestamp valido
  encontrado nos dados." (line 85) or "Erro ao carregar dados: ..." (line 110).
\<close>

datatype failure = NoValidTimestamps | LoadError

subsection \<open>The library\<close>

text \<open>
  pandas and the Python runtime are not part of the repository. The calls dash.py
  makes into them are the fields of one record, which every function below takes
  as its first argument; a theorem stated for an arbitrary \<open>pd\<close> holds whatever
  the library does.
  \<^item> \<open>to_datetime_format ts fmt\<close>: \<open>pd.to_datetime(ts, format=fmt)\<close> on one string;
  \<^item> \<open>to_datetime_infer ts\<close>: \<open>pd.to_datetime(ts, infer_datetime_format=True)\<close>;
  \<^item> \<open>parse_number s\<close>: the number \<open>pd.to_numeric(..., errors='coerce')\<close> reads
    from text (\<open>None\<close>: coerced to NaN);
  \<^item> \<open>to_numeric_raises col\<close>: whether \<open>pd.to_numeric\<close> raises on that column;
  \<^item> \<open>is_datetimelike col\<close>: whether a column of Timestamps has a datetime dtype,
    so that the \<open>.dt\<close> accessor exists (otherwise it raises AttributeError);
  \<^item> \<open>to_datetime_utc col\<close>: \<open>pd.to_datetime(col, utc=True, errors='coerce')\<close>
    on a column, \<open>None\<close> for NaT;
  \<^item> \<open>str_of c\<close>: Python's \<open>str\<close> of a cell that is not text.
\<close>

record pandas =
  to_datetime_format :: "string \<Rightarrow> string \<Rightarrow> datetime attempt"
  to_datetime_infer :: "string \<Rightarrow> datetime attempt"
  parse_number :: "string \<Rightarrow> real option"
  to_numeric_raises :: "cell list \<Rightarrow> bool"
  is_datetimelike :: "pd_timestamp list \<Rightarrow> bool"
  to_datetime_utc :: "cell list \<Rightarrow> civil option list"
  str_of :: "cell \<Rightarrow> string"

subsection \<open>Calendar arithmetic\<close>

text \<open>Days since 1970-01-01 of a proleptic Gregorian date, and back.\<close>

definition days_from_civil :: "int \<Rightarrow> int \<Rightarrow> int \<Rightarrow> int" where
  "days_from_civil y m d =
     (let y' = (if m \<le> 2 then y - 1 else y);
          era = y' div 400;
          yoe = y' mod 400;
          doy = (153 * (if m > 2 then m - 3 else m + 9) + 2) div 5 + d - 1;
          doe = yoe * 365 + yoe div 4 - yoe div 100 + doy
      in era * 146097 + doe - 719468)"

definition civil_from_days :: "int \<Rightarrow> int \<times> int \<times> int" where
  "civil_from_days z =
     (let z' = z + 719468;
          era = z' div 146097;
          doe = z' mod 146097;
          yoe = (doe - doe div 1460 + doe div 36524 - doe div 146096) div 365;
          doy = doe - (365 * yoe + yoe div 4 - yoe div 100);
          mp = (5 * doy + 2) div 153;
          d = doy - (153 * mp + 2) div 5 + 1;
          m = (if mp < 10 then mp + 3 else mp - 9);
          y = yoe + era * 400
      in (if m \<le> 2 then y + 1 else y, m, d))"

text \<open>Seconds since the epoch of a wall-clock reading taken as UTC.\<close>

definition epoch_seconds :: "'a civil_scheme \<Rightarrow> int" where
  "epoch_seconds t =
     ((days_from_civil (cyear t) (cmonth t) (cday t) * 24 + chour t) * 60 + cminute t) * 60
       + csecond t"

text \<open>A wall-clock reading in UTC from seconds since the epoch.\<close>

definition civil_of_seconds :: "int \<Rightarrow> civil" where
  "civil_of_seconds n =
     (let r = n mod 86400 in
      (case civil_from_days (n div 86400) of
         (y, m, d) \<Rightarrow>
           \<lparr>cyear = y, cmonth = m, cday = d,
            chour = r div 3600, cminute = (r mod 3600) div 60, csecond = r mod 60\<rparr>))"

text \<open>The instant of a Timestamp in UTC; a tz-naive one is taken as UTC.\<close>

definition to_utc :: "pd_timestamp \<Rightarrow> civil" where
  "to_utc t =
     civil_of_seconds (epoch_seconds t - 60 * (case tzinfo t of None \<Rightarrow> 0 | Some z \<Rightarrow> z))"

text \<open>\<open>.dt.day_name()\<close>: 1970-01-01 was a Thursday.\<close>

definition day_name :: "pd_timestamp \<Rightarrow> string" where
  "day_name t =
     [''Monday'', ''Tuesday'', ''Wednesday'', ''Thursday'', ''Friday'', ''Saturday'', ''Sunday'']
       ! nat ((days_from_civil (cyear t) (cmonth t) (cday t) + 3) mod 7)"

subsection \<open>load_data\<close>

text \<open>\<open>pd.isna\<close> on a scalar.\<close>

definition isna :: "cell \<Rightarrow> bool" where
  "isna c = (c = NaN \<or> c = NaT)"

text \<open>Line 54, \<open>ts = str(ts)\<close>: text is unchanged.\<close>

definition str :: "pandas \<Rightarrow> cell \<Rightarrow> string" where
  "str pd c = (case c of Str s \<Rightarrow> s | _ \<Rightarrow> str_of pd c)"

text \<open>Lines 57-63.\<close>

definition formats :: "string list" where
  "formats =
     [''%Y-%m-%dT%H:%M:%S%z'',
      ''%Y-%m-%dT%H:%M:%S+0000'',
      ''%Y-%m-%dT%H:%M:%S'',
      ''%Y-%m-%d %H:%M:%S'',
      ''%Y-%m-%d'']"

text \<open>
  Lines 65-69, the loop over the formats: the first call that does not raise
  returns from parse_timestamp; \<open>None\<close> when the loop ends without a return.
\<close>

fun try_formats :: "pandas \<Rightarrow> string \<Rightarrow> string list \<Rightarrow> datetime option" where
  "try_formats pd ts [] = None"
| "try_formats pd ts (fmt # fmts) =
     (case to_datetime_format pd ts fmt of
        Returns t \<Rightarrow> Some t
      | Raises \<Rightarrow> try_formats pd ts fmts)"

text \<open>Lines 49-75.\<close>

definition parse_timestamp :: "pandas \<Rightarrow> cell \<Rightarrow> datetime" where
  "parse_timestamp pd ts =
     (if isna ts \<or> ts = Str ''timestamp'' \<or> ts = Str '''' then None
      else
        let s = str pd ts in
        (case try_formats pd s formats of
           Some t \<Rightarrow> t
         | None \<Rightarrow>
             (case to_datetime_infer pd s of
                Returns t \<Rightarrow> t
              | Raises \<Rightarrow> None)))"

text \<open>Line 29: a repeated header line is removed.\<close>

definition drop_header :: "row list \<Rightarrow> row list" where
  "drop_header df = filter (\<lambda>r. timestamp r \<noteq> Str ''timestamp'') df"

text \<open>
  \<open>pd.to_numeric(series, errors='coerce')\<close> on one cell: a number stays, text is
  read as a number or coerced to NaN (\<open>None\<close>), anything else is NaN.
\<close>

definition to_numeric :: "pandas \<Rightarrow> cell \<Rightarrow> real option" where
  "to_numeric pd c = (case c of Num x \<Rightarrow> Some x | Str s \<Rightarrow> parse_number pd s | _ \<Rightarrow> None)"

text \<open>\<open>.fillna(0)\<close> on a numeric cell.\<close>

definition fillna0 :: "real option \<Rightarrow> cell" where
  "fillna0 v = (case v of None \<Rightarrow> Num 0 | Some x \<Rightarrow> Num x)"

text \<open>
  Lines 32-39, given the frame and the column. The result lists the cell each
  row of the frame receives when the returned Series is assigned to the column.
  The Series of the \<open>try\<close> branch has the index of the frame. The Series of the
  \<open>except\<close> branch, \<open>pd.Series([0] * len(series))\<close>, is indexed 0 .. n-1, and
  the assignment aligns on the index label: a row whose label is not below n
  receives NaN.
\<close>

definition safe_numeric_convert :: "pandas \<Rightarrow> (row \<Rightarrow> cell) \<Rightarrow> row list \<Rightarrow> cell list" where
  "safe_numeric_convert pd col df =
     (if to_numeric_raises pd (map col df)
      then map (\<lambda>r. if idx r < length df then Num 0 else NaN) df
      else map (\<lambda>r. fillna0 (to_numeric pd (col r))) df)"

text \<open>Lines 42-46.\<close>

definition convert_followers :: "pandas \<Rightarrow> string list \<Rightarrow> row list \<Rightarrow> row list" where
  "convert_followers pd cols df =
     (if ''followers_count'' \<in> set cols
      then map2 (\<lambda>r c. r\<lparr>followers_count := c\<rparr>) df (safe_numeric_convert pd followers_count df)
      else df)"

definition convert_media :: "pandas \<Rightarrow> string list \<Rightarrow> row list \<Rightarrow> row list" where
  "convert_media pd cols df =
     (if ''media_count'' \<in> set cols
      then map2 (\<lambda>r c. r\<lparr>media_count := c\<rparr>) df (safe_numeric_convert pd media_count df)
      else df)"

text \<open>Lines 79-82: the parsed column, then \<open>dropna(subset=['timestamp_parsed'])\<close>.\<close>

definition dropna_parsed :: "pandas \<Rightarrow> row list \<Rightarrow> (row \<times> pd_timestamp) list" where
  "dropna_parsed pd df =
     List.map_filter
       (\<lambda>r. case parse_timestamp pd (timestamp r) of None \<Rightarrow> None | Some t \<Rightarrow> Some (r, t)) df"

text \<open>Lines 89-94: the calendar columns, read from the Timestamp as parsed.\<close>

definition derive :: "row \<times> pd_timestamp \<Rightarrow> clean_row" where
  "derive p =
     (case p of (r, t) \<Rightarrow>
        row.extend r
          (clean_row.fields t (cyear t) (cmonth t) (cday t) (chour t) (day_name t)
             (cyear t, cmonth t, cday t)))"

text \<open>
  Lines 101-104. The loop visits followers_count, media_count, year, month, day,
  hour in this order; a raise leaves load_data through the handler of line 109.
  The four calendar columns are integer columns without missing values, which
  \<open>to_numeric\<close> and \<open>fillna\<close> return as they are.
\<close>

definition numeric_raises :: "pandas \<Rightarrow> string list \<Rightarrow> clean_row list \<Rightarrow> bool" where
  "numeric_raises pd cols df =
     ((''followers_count'' \<in> set cols \<and> to_numeric_raises pd (map followers_count df))
      \<or> (''media_count'' \<in> set cols \<and> to_numeric_raises pd (map media_count df))
      \<or> to_numeric_raises pd (map (\<lambda>r. Num (of_int (year r))) df)
      \<or> to_numeric_raises pd (map (\<lambda>r. Num (of_int (month r))) df)
      \<or> to_numeric_raises pd (map (\<lambda>r. Num (of_int (day r))) df)
      \<or> to_numeric_raises pd (map (\<lambda>r. Num (of_int (hour r))) df))"

definition numeric_final :: "pandas \<Rightarrow> string list \<Rightarrow> clean_row \<Rightarrow> clean_row" where
  "numeric_final pd cols r =
     (let r1 = (if ''followers_count'' \<in> set cols
                then r\<lparr>followers_count := fillna0 (to_numeric pd (followers_count r))\<rparr> else r)
      in (if ''media_count'' \<in> set cols
          then r1\<lparr>media_count := fillna0 (to_numeric pd (media_count r1))\<rparr> else r1))"

text \<open>
  Lines 23-111. The arguments are the library, \<open>datetime.now().year\<close>, and what
  \<open>pd.read_csv('posts.csv')\<close> gave (\<open>None\<close>: it raised). Every raise inside
  the \<open>try\<close> ends in the handler of lines 109-111: a frame without a timestamp
  column (KeyError on line 29), a parsed column without a datetime dtype
  (AttributeError at the \<open>.dt\<close> accessor of line 89), a raise of \<open>to_numeric\<close>
  on line 104. The check of line 84 stands before the year filter of line 98.
\<close>

definition load_data :: "pandas \<Rightarrow> int \<Rightarrow> dataframe option \<Rightarrow> failure + clean_row list" where
  "load_data pd current_year csv =
     (case csv of
        None \<Rightarrow> Inl LoadError
      | Some df0 \<Rightarrow>
          if ''timestamp'' \<notin> set (columns df0) then Inl LoadError
          else
            let df = drop_header (rows df0);
                df = convert_followers pd (columns df0) df;
                df = convert_media pd (columns df0) df;
                df_clean = dropna_parsed pd df
            in
              if df_clean = [] then Inl NoValidTimestamps
              else if \<not> is_datetimelike pd (map snd df_clean) then Inl LoadError
              else
                let df_clean = map derive df_clean;
                    df_clean = filter (\<lambda>r. year r \<ge> 2010 \<and> year r \<le> current_year + 1) df_clean
                in
                  if numeric_raises pd (columns df0) df_clean then Inl LoadError
                  else Inr (map (numeric_final pd (columns df0)) df_clean))"

subsection \<open>main: the year filter and the aggregations\<close>

text \<open>
  Lines 138-141. \<open>selected_years\<close> is the choice made in the sidebar; the empty
  choice keeps the whole frame.
\<close>

definition df_filtered :: "int list \<Rightarrow> clean_row list \<Rightarrow> clean_row list" where
  "df_filtered selected_years df =
     (if selected_years \<noteq> [] then filter (\<lambda>r. year r \<in> set selected_years) df else df)"

text \<open>\<open>groupby(key).size()\<close>: one entry per key present, keys ascending.\<close>

definition groupby_size :: "('r \<Rightarrow> 'k::linorder) \<Rightarrow> 'r list \<Rightarrow> ('k \<times> nat) list" where
  "groupby_size key df =
     map (\<lambda>k. (k, length (filter (\<lambda>r. key r = k) df))) (sort (remdups (map key df)))"

text \<open>Lines 174, 191 and 209.\<close>

definition yearly_posts :: "clean_row list \<Rightarrow> (int \<times> nat) list" where
  "yearly_posts df = groupby_size year df"

definition hourly_posts :: "clean_row list \<Rightarrow> (int \<times> nat) list" where
  "hourly_posts df = groupby_size hour df"

definition heatmap_data :: "clean_row list \<Rightarrow> ((int \<times> int) \<times> nat) list" where
  "heatmap_data df = groupby_size (\<lambda>r. (year r, month r)) df"

text \<open>Line 411: \<open>value_counts().reindex(weekday_order, fill_value=0)\<close>.\<close>

definition weekday_order :: "string list" where
  "weekday_order =
     [''Monday'', ''Tuesday'', ''Wednesday'', ''Thursday'', ''Friday'', ''Saturday'', ''Sunday'']"

definition weekday_posts :: "clean_row list \<Rightarrow> nat list" where
  "weekday_posts df = map (\<lambda>d. length (filter (\<lambda>r. weekday r = d) df)) weekday_order"

text \<open>
  Lines 293-297, on the whole frame: the month of each row's date, then the
  number of rows per month.
\<close>

definition posts_por_mes :: "clean_row list \<Rightarrow> ((int \<times> int) \<times> nat) list" where
  "posts_por_mes df = groupby_size (\<lambda>r. case date r of (y, m, d) \<Rightarrow> (y, m)) df"

text \<open>
  \<open>Series.rolling(window=3, center=True).mean()\<close>: the window of position i is
  i-1, i, i+1, and with the default \<open>min_periods\<close> (the window size) the mean
  is NaN unless all three positions exist.
\<close>

definition rolling3_center_mean :: "real list \<Rightarrow> real option list" where
  "rolling3_center_mean xs =
     map (\<lambda>i. if 1 \<le> i \<and> i + 1 < length xs
               then Some ((xs ! (i - 1) + xs ! i + xs ! (i + 1)) / 3) else None)
       [0..<length xs]"

text \<open>Lines 300-303, from the monthly counts.\<close>

definition media_movel :: "nat list \<Rightarrow> real option list" where
  "media_movel posts =
     (if length posts > 3 then rolling3_center_mean (map real posts)
      else replicate (length posts) None)"

text \<open>Line 323: the trace of the moving average is drawn.\<close>

definition media_movel_drawn :: "real option list \<Rightarrow> bool" where
  "media_movel_drawn mm = (length (filter (\<lambda>v. v \<noteq> None) mm) > 0)"

subsection \<open>main: the pandemic split\<close>

text \<open>Line 306.\<close>

definition PANDEMIA_INICIO :: civil where
  "PANDEMIA_INICIO =
     \<lparr>cyear = 2020, cmonth = 3, cday = 1, chour = 0, cminute = 0, csecond = 0\<rparr>"

text \<open>The two labels of line 368, pre- and post-pandemic.\<close>

datatype periodo = Pre_Pandemia | Pos_Pandemia

text \<open>
  Line 368, the lambda: a comparison with NaT is false, so NaT takes the
  \<open>else\<close> branch. Two UTC datetimes compare as instants.
\<close>

definition classify :: "civil option \<Rightarrow> periodo" where
  "classify x =
     (case x of
        None \<Rightarrow> Pos_Pandemia
      | Some t \<Rightarrow>
          if epoch_seconds t < epoch_seconds PANDEMIA_INICIO then Pre_Pandemia
          else Pos_Pandemia)"

text \<open>The frame of main after line 372: two more columns.\<close>

record main_row = clean_row +
  ano_mes :: "(int \<times> int) option"
  periodo :: periodo

text \<open>
  Line 364 on the whole frame \<open>df\<close>: the re-parsed column has the index of the
  frame, so row i receives entry i (NaT where the library returned none).
\<close>

definition reparse_utc :: "pandas \<Rightarrow> clean_row list \<Rightarrow> civil option list" where
  "reparse_utc pd df =
     (let col = to_datetime_utc pd (map timestamp df)
      in map (\<lambda>i. if i < length col then col ! i else None) [0..<length df])"

text \<open>
  Lines 364-372: \<open>df['timestamp']\<close> is overwritten with the re-parsed column, and
  \<open>periodo\<close> and \<open>ano_mes\<close> are written from it. (Lines 293-295 before that
  re-type \<open>date\<close> as a datetime at midnight and write a first \<open>ano_mes\<close>.)
\<close>

definition mutate_row :: "clean_row \<Rightarrow> civil option \<Rightarrow> main_row" where
  "mutate_row r x =
     clean_row.extend
       (r\<lparr>timestamp := (case x of None \<Rightarrow> NaT | Some t \<Rightarrow> Utc t)\<rparr>)
       (main_row.fields (map_option (\<lambda>t. (cyear t, cmonth t)) x) (classify x))"

definition df_after_main :: "pandas \<Rightarrow> clean_row list \<Rightarrow> main_row list" where
  "df_after_main pd df = map2 mutate_row df (reparse_utc pd df)"

text \<open>Lines 375-379.\<close>

definition sizes :: "main_row list \<Rightarrow> nat \<times> nat" where
  "sizes df =
     (length (filter (\<lambda>r. periodo r = Pre_Pandemia) df),
      length (filter (\<lambda>r. periodo r = Pos_Pandemia) df))"

text \<open>
  What main hands to the charts, and the frame it leaves behind. \<open>Returns None\<close>
  is the early return of lines 122-124: nothing is charted. \<open>Raises\<close> is the
  KeyError of line 150, \<open>df_filtered['username']\<close> outside any \<open>try\<close>, on a
  file without a username column: main ends there, before any chart. The frame
  load_data returned has the columns of the file and the derived ones, so the
  other columns main reads exist. The values of the four metrics of lines
  144-164 and the styling of the figures are display only and have no part here.
\<close>

record charts =
  chart_yearly :: "(int \<times> nat) list"
  chart_hourly :: "(int \<times> nat) list"
  chart_heatmap :: "((int \<times> int) \<times> nat) list"
  chart_monthly :: "((int \<times> int) \<times> nat) list"
  chart_media_movel :: "real option list"
  chart_sizes :: "nat \<times> nat"
  chart_weekday :: "nat list"
  df_final :: "main_row list"

definition has_column :: "dataframe option \<Rightarrow> string \<Rightarrow> bool" where
  "has_column csv name = (case csv of None \<Rightarrow> False | Some df0 \<Rightarrow> name \<in> set (columns df0))"

definition main ::
  "pandas \<Rightarrow> int \<Rightarrow> dataframe option \<Rightarrow> int list \<Rightarrow> charts option attempt" where
  "main pd current_year csv selected_years =
     (case load_data pd current_year csv of
        Inl e \<Rightarrow> Returns None
      | Inr df \<Rightarrow>
          if df = [] then Returns None
          else if \<not> has_column csv ''username'' then Raises
          else
            let flt = df_filtered selected_years df;
                monthly = posts_por_mes df;
                df' = df_after_main pd df
            in Returns (Some \<lparr>chart_yearly = yearly_posts flt,
                     chart_hourly = hourly_posts flt,
                     chart_heatmap = heatmap_data flt,
                     chart_monthly = monthly,
                     chart_media_movel = media_movel (map snd monthly),
                     chart_sizes = sizes df',
                     chart_weekday = weekday_posts flt,
                     df_final = df'\<rparr>))"

subsection \<open>A reference library\<close>

text \<open>
  An executable stand-in for the library, to run the program on concrete files.
  It reads zero-padded fields only: \<open>%Y\<close> four digits, \<open>%m %d %H %M %S\<close> two
  digits, \<open>%z\<close> a sign, two digits of hours, an optional colon and two digits
  of minutes; any other character of a format stands for itself.
\<close>

definition digit_of :: "char \<Rightarrow> int option" where
  "digit_of c =
     (let n = (of_char c :: nat) in if 48 \<le> n \<and> n \<le> 57 then Some (int n - 48) else None)"

fun digits_value :: "int \<Rightarrow> string \<Rightarrow> int option" where
  "digits_value acc [] = Some acc"
| "digits_value acc (c # cs) =
     (case digit_of c of None \<Rightarrow> None | Some v \<Rightarrow> digits_value (acc * 10 + v) cs)"

definition take_digits :: "nat \<Rightarrow> string \<Rightarrow> (int \<times> string) option" where
  "take_digits n s =
     (if length s < n then None
      else (case digits_value 0 (take n s) of None \<Rightarrow> None | Some v \<Rightarrow> Some (v, drop n s)))"

definition read_offset :: "string \<Rightarrow> (int \<times> string) option" where
  "read_offset s =
     (case s of
        [] \<Rightarrow> None
      | c # s1 \<Rightarrow>
          if c \<noteq> CHR ''+'' \<and> c \<noteq> CHR ''-'' then None
          else
            (case take_digits 2 s1 of
               None \<Rightarrow> None
             | Some (hh, s2) \<Rightarrow>
                 (case take_digits 2 (if s2 \<noteq> [] \<and> hd s2 = CHR '':'' then tl s2 else s2) of
                    None \<Rightarrow> None
                  | Some (mm, s3) \<Rightarrow>
                      Some ((if c = CHR ''-'' then - (hh * 60 + mm) else hh * 60 + mm), s3))))"

definition directive :: "char \<Rightarrow> string \<Rightarrow> pd_timestamp \<Rightarrow> (string \<times> pd_timestamp) option" where
  "directive d s t =
     (if d = CHR ''Y'' then map_option (\<lambda>(v, s'). (s', t\<lparr>cyear := v\<rparr>)) (take_digits 4 s)
      else if d = CHR ''m'' then map_option (\<lambda>(v, s'). (s', t\<lparr>cmonth := v\<rparr>)) (take_digits 2 s)
      else if d = CHR ''d'' then map_option (\<lambda>(v, s'). (s', t\<lparr>cday := v\<rparr>)) (take_digits 2 s)
      else if d = CHR ''H'' then map_option (\<lambda>(v, s'). (s', t\<lparr>chour := v\<rparr>)) (take_digits 2 s)
      else if d = CHR ''M'' then map_option (\<lambda>(v, s'). (s', t\<lparr>cminute := v\<rparr>)) (take_digits 2 s)
      else if d = CHR ''S'' then map_option (\<lambda>(v, s'). (s', t\<lparr>csecond := v\<rparr>)) (take_digits 2 s)
      else if d = CHR ''z'' then map_option (\<lambda>(v, s'). (s', t\<lparr>tzinfo := Some v\<rparr>)) (read_offset s)
      else None)"

fun match_format :: "string \<Rightarrow> string \<Rightarrow> pd_timestamp \<Rightarrow> pd_timestamp option" where
  "match_format [] s t = (if s = [] then Some t else None)"
| "match_format [c] s t = (if s = [c] then Some t else None)"
| "match_format (c # d # fmt) s t =
     (if c = CHR ''%'' then
        (case directive d s t of
           None \<Rightarrow> None
         | Some (s', t') \<Rightarrow> match_format fmt s' t')
      else
        (case s of
           [] \<Rightarrow> None
         | x # s' \<Rightarrow> if x = c then match_format (d # fmt) s' t else None))"

definition days_in_month :: "int \<Rightarrow> int \<Rightarrow> int" where
  "days_in_month y m =
     (if m = 2 then (if y mod 4 = 0 \<and> (y mod 100 \<noteq> 0 \<or> y mod 400 = 0) then 29 else 28)
      else if m = 4 \<or> m = 6 \<or> m = 9 \<or> m = 11 then 30 else 31)"

definition valid_timestamp :: "pd_timestamp \<Rightarrow> bool" where
  "valid_timestamp t =
     (1 \<le> cyear t \<and> 1 \<le> cmonth t \<and> cmonth t \<le> 12
      \<and> 1 \<le> cday t \<and> cday t \<le> days_in_month (cyear t) (cmonth t)
      \<and> chour t \<le> 23 \<and> cminute t \<le> 59 \<and> csecond t \<le> 59)"

definition strptime :: "string \<Rightarrow> string \<Rightarrow> datetime attempt" where
  "strptime ts fmt =
     (case match_format fmt ts
             \<lparr>cyear = 1900, cmonth = 1, cday = 1, chour = 0, cminute = 0, csecond = 0,
              tzinfo = None\<rparr> of
        None \<Rightarrow> Raises
      | Some t \<Rightarrow> if valid_timestamp t then Returns (Some t) else Raises)"

text \<open>
  The stand-in for the format inference reads one more shape, month first:
  \<open>%m/%d/%Y\<close>.
\<close>

definition infer_ref :: "string \<Rightarrow> datetime attempt" where
  "infer_ref ts = strptime ts ''%m/%d/%Y''"

text \<open>Plain decimal numerals: an optional minus sign, digits, an optional fraction.\<close>

definition decimal_ref :: "string \<Rightarrow> real option" where
  "decimal_ref s =
     (let neg = (s \<noteq> [] \<and> hd s = CHR ''-'');
          body = (if neg then tl s else s);
          ip = takeWhile (\<lambda>c. c \<noteq> CHR ''.'') body;
          rest = dropWhile (\<lambda>c. c \<noteq> CHR ''.'') body;
          fp = (if rest = [] then [] else tl rest)
      in if ip = [] \<or> (rest \<noteq> [] \<and> fp = []) then None
         else
           (case (digits_value 0 ip, digits_value 0 fp) of
              (Some i, Some f) \<Rightarrow>
                (let v = of_int i + of_int f / 10 ^ length fp in Some (if neg then - v else v))
            | _ \<Rightarrow> None))"

text \<open>
  The stand-in for the re-parse of line 364 does what pandas 2 does on a column
  of text: the format is guessed from the first text cell and every cell is
  read with that one format, a cell of another shape being coerced to NaT; an
  offset is converted to UTC. The shapes guessed are the listed formats and
  \<open>%m/%d/%Y\<close>.
\<close>

fun first_text :: "cell list \<Rightarrow> string option" where
  "first_text [] = None"
| "first_text (c # cs) = (case c of Str s \<Rightarrow> Some s | _ \<Rightarrow> first_text cs)"

definition reads_as :: "string \<Rightarrow> string \<Rightarrow> pd_timestamp option" where
  "reads_as s fmt = (case strptime s fmt of Returns (Some t) \<Rightarrow> Some t | _ \<Rightarrow> None)"

definition guess_format :: "cell list \<Rightarrow> string option" where
  "guess_format col =
     (case first_text col of
        None \<Rightarrow> None
      | Some s \<Rightarrow> find (\<lambda>fmt. reads_as s fmt \<noteq> None) (formats @ [''%m/%d/%Y'']))"

definition to_datetime_utc_ref :: "cell list \<Rightarrow> civil option list" where
  "to_datetime_utc_ref col =
     (case guess_format col of
        None \<Rightarrow> map (\<lambda>c. None) col
      | Some fmt \<Rightarrow>
          map (\<lambda>c. case c of
                      Str s \<Rightarrow> map_option to_utc (reads_as s fmt)
                    | Utc t \<Rightarrow> Some t
                    | _ \<Rightarrow> None) col)"

text \<open>
  A column of Timestamps has a datetime dtype when all its entries carry the
  same zone.
\<close>

definition same_zone :: "pd_timestamp list \<Rightarrow> bool" where
  "same_zone ts = list_all (\<lambda>t. tzinfo t = tzinfo (hd ts)) ts"

definition pandas_ref :: pandas where
  "pandas_ref =
     \<lparr>to_datetime_format = strptime,
      to_datetime_infer = infer_ref,
      parse_number = decimal_ref,
      to_numeric_raises = (\<lambda>col. False),
      is_datetimelike = same_zone,
      to_datetime_utc = to_datetime_utc_ref,
      str_of = (\<lambda>c. [])\<rparr>"

text \<open>A frame as \<open>read_csv\<close> builds it: the rows labelled 0, 1, 2, ...\<close>

definition read_csv :: "string list \<Rightarrow> (cell \<times> cell \<times> cell \<times> cell) list \<Rightarrow> dataframe" where
  "read_csv cols lines =
     \<lparr>columns = cols,
      rows = map (\<lambda>(i, (t, u, f, m)).
                    \<lparr>idx = i, timestamp = t, username = u, followers_count = f, media_count = m\<rparr>)
               (enumerate 0 lines)\<rparr>"

definition posts_columns :: "string list" where
  "posts_columns = [''timestamp'', ''username'', ''followers_count'', ''media_count'']"

subsection \<open>What load_data keeps\<close>

text \<open>
  The rows of the frame read from the CSV that reach the cleaned frame: not a
  repeated header, a timestamp that parses, a year from 2010 to the year after
  the current one.
\<close>

definition survivors :: "pandas \<Rightarrow> int \<Rightarrow> row list \<Rightarrow> row list" where
  "survivors pd current_year df =
     filter (\<lambda>r. case parse_timestamp pd (timestamp r) of
                   None \<Rightarrow> False
                 | Some t \<Rightarrow> 2010 \<le> cyear t \<and> cyear t \<le> current_year + 1)
       (drop_header df)"

text \<open>
  The cleaned row of a surviving row \<open>r\<close> whose timestamp parsed as \<open>t\<close>: the
  calendar columns of \<open>t\<close>, and each numeric column present in the file
  converted (0 for every row when \<open>to_numeric\<close> raised on the column).
\<close>

definition cleaned :: "pandas \<Rightarrow> dataframe \<Rightarrow> row \<Rightarrow> pd_timestamp \<Rightarrow> clean_row" where
  "cleaned pd df0 r t =
     derive
       (r\<lparr>followers_count :=
            (if ''followers_count'' \<in> set (columns df0)
             then (if to_numeric_raises pd (map followers_count (drop_header (rows df0)))
                   then Num 0 else fillna0 (to_numeric pd (followers_count r)))
             else followers_count r),
          media_count :=
            (if ''media_count'' \<in> set (columns df0)
             then (if to_numeric_raises pd (map media_count (drop_header (rows df0)))
                   then Num 0 else fillna0 (to_numeric pd (media_count r)))
             else media_count r)\<rparr>, t)"

subsection \<open>Example files\<close>

text \<open>
  Small files to run the program on, with the reference library and 2026 as
  the current year.
\<close>

definition posts_example :: dataframe where
  "posts_example = read_csv posts_columns
     [(Str ''2019-01-01'', Str ''ana'', Str ''120'', Str ''3''),
      (Str ''timestamp'', Str ''username'', Str ''followers_count'', Str ''media_count''),
      (Str ''2020-02-15 08:30:00'', Str ''bob'', Str ''abc'', Str ''7''),
      (Str ''not a date'', Str ''carol'', Str ''5'', Str ''1''),
      (Str ''2020-03-01T00:00:00'', Str ''ana'', NaN, Str ''2.5''),
      (Str ''06/01/2021'', Str ''dan'', Str ''-5'', Str ''x''),
      (Str ''2005-07-04'', Str ''eve'', Str ''9'', Str ''9'')]"

definition posts_split :: dataframe where
  "posts_split = read_csv posts_columns
     [(Str ''2019-01-01'', Str ''ana'', Str ''1'', Str ''1''),
      (Str ''2020-02-15'', Str ''bob'', Str ''2'', Str ''2''),
      (Str ''2020-03-01'', Str ''ana'', Str ''3'', Str ''3''),
      (Str ''2021-06-01'', Str ''dan'', Str ''4'', Str ''4'')]"

definition posts_old :: dataframe where
  "posts_old = read_csv posts_columns [(Str ''2005-01-01'', Str ''ana'', Str ''10'', Str ''3'')]"

definition posts_offset :: dataframe where
  "posts_offset = read_csv posts_columns
     [(Str ''2020-01-01T01:00:00+0300'', Str ''ana'', Str ''10'', Str ''3'')]"

definition posts_negative :: dataframe where
  "posts_negative = read_csv posts_columns
     [(Str ''2021-06-01'', Str ''dan'', Str ''-5'', Str ''4'')]"

definition posts_unparseable :: dataframe where
  "posts_unparseable = read_csv posts_columns
     [(Str ''not a date'', Str ''ana'', Str ''10'', Str ''3''),
      (Str ''timestamp'', Str ''username'', Str ''followers_count'', Str ''media_count''),
      (NaN, Str ''bob'', Str ''1'', Str ''1'')]"

definition cleaned_example :: "clean_row list" where
  "cleaned_example = projr (load_data pandas_ref 2026 (Some posts_example))"

section \<open>Properties\<close>

subsection \<open>The pipeline of load_data, row by row\<close>

lemma map2_same: "map2 f xs (map g xs) = map (\<lambda>x. f x (g x)) xs"
  by (induction xs) simp_all

lemma convert_followers_map:
  "convert_followers pd cols df =
     map (\<lambda>r. if ''followers_count'' \<in> set cols
              then r\<lparr>followers_count :=
                     (if to_numeric_raises pd (map followers_count df)
                      then (if idx r < length df then Num 0 else NaN)
                      else fillna0 (to_numeric pd (followers_count r)))\<rparr>
              else r) df"
  by (simp add: convert_followers_def safe_numeric_convert_def map2_same)

lemma convert_media_map:
  "convert_media pd cols df =
     map (\<lambda>r. if ''media_count'' \<in> set cols
              then r\<lparr>media_count :=
                     (if to_numeric_raises pd (map media_count df)
                      then (if idx r < length df then Num 0 else NaN)
                      else fillna0 (to_numeric pd (media_count r)))\<rparr>
              else r) df"
  by (simp add: convert_media_def safe_numeric_convert_def map2_same)

lemma dropna_parsed_map:
  assumes "\<And>r. timestamp (h r) = timestamp r"
  shows "dropna_parsed pd (map h df) = map (\<lambda>(r, t). (h r, t)) (dropna_parsed pd df)"
  using assms by (induction df) (auto simp: dropna_parsed_def List.map_filter_simps split: option.splits)

lemma dropna_parsed_eq:
  "dropna_parsed pd df =
     map (\<lambda>r. (r, the (parse_timestamp pd (timestamp r))))
       (filter (\<lambda>r. parse_timestamp pd (timestamp r) \<noteq> None) df)"
  by (induction df) (auto simp: dropna_parsed_def List.map_filter_simps split: option.splits)

lemma fillna0_idem: "fillna0 (to_numeric pd (fillna0 v)) = fillna0 v"
  by (cases v) (simp_all add: fillna0_def to_numeric_def)

lemma fillna0_const [simp]:
  "fillna0 (to_numeric pd (Num x)) = Num x" "fillna0 (to_numeric pd NaN) = Num 0"
  by (simp_all add: fillna0_def to_numeric_def)

lemma fillna0_Num: "\<exists>x. fillna0 v = Num x"
  by (cases v) (simp_all add: fillna0_def)

lemma derive_sel [simp]:
  "idx (derive (r, t)) = idx r" "timestamp (derive (r, t)) = timestamp r"
  "username (derive (r, t)) = username r"
  "followers_count (derive (r, t)) = followers_count r"
  "media_count (derive (r, t)) = media_count r"
  "timestamp_parsed (derive (r, t)) = t"
  "year (derive (r, t)) = cyear t" "month (derive (r, t)) = cmonth t"
  "day (derive (r, t)) = cday t" "hour (derive (r, t)) = chour t"
  "weekday (derive (r, t)) = day_name t"
  "date (derive (r, t)) = (cyear t, cmonth t, cday t)"
  by (simp_all add: derive_def row.defs clean_row.defs)

lemma derive_update:
  "(derive (r, t))\<lparr>followers_count := c\<rparr> = derive (r\<lparr>followers_count := c\<rparr>, t)"
  "(derive (r, t))\<lparr>media_count := c\<rparr> = derive (r\<lparr>media_count := c\<rparr>, t)"
  by (simp_all add: derive_def row.defs clean_row.defs)

lemma load_data_pipeline:
  assumes "load_data pd cy (Some df0) = Inr out"
  shows "out = map (numeric_final pd (columns df0))
           (filter (\<lambda>r. year r \<ge> 2010 \<and> year r \<le> cy + 1)
             (map derive (dropna_parsed pd
                (convert_media pd (columns df0)
                   (convert_followers pd (columns df0) (drop_header (rows df0)))))))"
  using assms by (auto simp: load_data_def Let_def split: if_splits)

lemma load_data_normal_form:
  assumes "load_data pd cy (Some df0) = Inr out"
  shows "out = map (\<lambda>r. cleaned pd df0 r (the (parse_timestamp pd (timestamp r))))
                 (survivors pd cy (rows df0))"
proof -
  let ?df = "drop_header (rows df0)"
  let ?cols = "columns df0"
  have media_same: "map media_count (convert_followers pd ?cols ?df) = map media_count ?df"
    by (simp add: convert_followers_map)
  have len_same: "length (convert_followers pd ?cols ?df) = length ?df"
    by (simp add: convert_followers_map)
  define hf where "hf = (\<lambda>r::row. if ''followers_count'' \<in> set ?cols
              then r\<lparr>followers_count :=
                     (if to_numeric_raises pd (map followers_count ?df)
                      then (if idx r < length ?df then Num 0 else NaN)
                      else fillna0 (to_numeric pd (followers_count r)))\<rparr>
              else r)"
  define hm where "hm = (\<lambda>r::row. if ''media_count'' \<in> set ?cols
              then r\<lparr>media_count :=
                     (if to_numeric_raises pd (map media_count ?df)
                      then (if idx r < length ?df then Num 0 else NaN)
                      else fillna0 (to_numeric pd (media_count r)))\<rparr>
              else r)"
  have cf: "convert_followers pd ?cols ?df = map hf ?df"
    unfolding hf_def by (rule convert_followers_map)
  have cm: "convert_media pd ?cols (convert_followers pd ?cols ?df) = map (hm \<circ> hf) ?df"
    unfolding convert_media_map [of pd ?cols "convert_followers pd ?cols ?df"] media_same len_same
    unfolding cf hm_def by simp
  have ts: "timestamp ((hm \<circ> hf) r) = timestamp r" for r
    by (simp add: hm_def hf_def)
  have dp: "dropna_parsed pd (map (hm \<circ> hf) ?df) =
      map (\<lambda>r. ((hm \<circ> hf) r, the (parse_timestamp pd (timestamp r))))
        (filter (\<lambda>r. parse_timestamp pd (timestamp r) \<noteq> None) ?df)"
    using ts by (simp add: dropna_parsed_eq filter_map comp_def)
  have fin: "numeric_final pd ?cols (derive ((hm \<circ> hf) r, t)) = cleaned pd df0 r t" for r t
    by (simp add: numeric_final_def cleaned_def hm_def hf_def Let_def derive_update fillna0_idem)
  have "out = map (numeric_final pd ?cols)
           (filter (\<lambda>r. year r \<ge> 2010 \<and> year r \<le> cy + 1)
             (map derive (dropna_parsed pd (map (hm \<circ> hf) ?df))))"
    using load_data_pipeline [OF assms] cm by simp
  also have "\<dots> = map (\<lambda>r. cleaned pd df0 r (the (parse_timestamp pd (timestamp r))))
                 (survivors pd cy (rows df0))"
  proof -
    have p: "(parse_timestamp pd (timestamp r) \<noteq> None
               \<and> 2010 \<le> cyear (the (parse_timestamp pd (timestamp r)))
               \<and> cyear (the (parse_timestamp pd (timestamp r))) \<le> cy + 1)
             = (case parse_timestamp pd (timestamp r) of
                  None \<Rightarrow> False
                | Some t \<Rightarrow> 2010 \<le> cyear t \<and> cyear t \<le> cy + 1)" for r :: row
      by (cases "parse_timestamp pd (timestamp r)") simp_all
    have fin': "numeric_final pd ?cols (derive (hm (hf r), t)) = cleaned pd df0 r t" for r t
      using fin [of r t] by simp
    show ?thesis
      unfolding dp survivors_def
      by (simp add: filter_map comp_def fin' p [symmetric] conj_commute conj_left_commute)
  qed
  finally show ?thesis .
qed

subsection \<open>The loop over the formats\<close>

lemma try_formats_first:
  "k < length fs \<Longrightarrow> to_datetime_format pd s (fs ! k) = Returns t
   \<Longrightarrow> (\<forall>j<k. to_datetime_format pd s (fs ! j) = Raises)
   \<Longrightarrow> try_formats pd s fs = Some t"
proof (induction fs arbitrary: k)
  case Nil
  then show ?case by simp
next
  case (Cons f fs)
  show ?case
  proof (cases k)
    case 0
    with Cons.prems show ?thesis by simp
  next
    case (Suc k')
    from Cons.prems Suc have "to_datetime_format pd s f = Raises" by auto
    moreover have "\<forall>j<k'. to_datetime_format pd s (fs ! j) = Raises"
    proof (intro allI impI)
      fix j assume "j < k'"
      then have "Suc j < k" using Suc by simp
      with Cons.prems(3) have "to_datetime_format pd s ((f # fs) ! Suc j) = Raises" by blast
      then show "to_datetime_format pd s (fs ! j) = Raises" by simp
    qed
    then have "try_formats pd s fs = Some t"
      using Cons.IH [of k'] Cons.prems(1,2) Suc by simp
    ultimately show ?thesis by simp
  qed
qed

lemma try_formats_none:
  "(\<forall>fmt\<in>set fs. to_datetime_format pd s fmt = Raises) \<Longrightarrow> try_formats pd s fs = None"
  by (induction fs) simp_all

lemma try_formats_Some:
  "try_formats pd s fs = Some t \<Longrightarrow> \<exists>fmt\<in>set fs. to_datetime_format pd s fmt = Returns t"
  by (induction fs) (auto split: attempt.splits)

subsection \<open>The rows of the cleaned frame\<close>

lemma load_data_Some:
  "load_data pd cy csv = Inr out \<Longrightarrow> \<exists>df0. csv = Some df0 \<and> ''timestamp'' \<in> set (columns df0)"
  by (cases csv) (auto simp: load_data_def split: if_splits)

lemma survivors_parsed:
  "r \<in> set (survivors pd cy df) \<Longrightarrow>
     timestamp r \<noteq> Str ''timestamp''
     \<and> (\<exists>t. parse_timestamp pd (timestamp r) = Some t \<and> 2010 \<le> cyear t \<and> cyear t \<le> cy + 1)"
  by (auto simp: survivors_def drop_header_def split: option.splits)

lemma cleaned_sel [simp]:
  "idx (cleaned pd df0 r t) = idx r" "timestamp (cleaned pd df0 r t) = timestamp r"
  "username (cleaned pd df0 r t) = username r"
  "timestamp_parsed (cleaned pd df0 r t) = t"
  "year (cleaned pd df0 r t) = cyear t" "month (cleaned pd df0 r t) = cmonth t"
  "day (cleaned pd df0 r t) = cday t" "hour (cleaned pd df0 r t) = chour t"
  "weekday (cleaned pd df0 r t) = day_name t"
  "date (cleaned pd df0 r t) = (cyear t, cmonth t, cday t)"
  by (simp_all add: cleaned_def)

lemma load_data_rows:
  assumes "load_data pd cy csv = Inr out" and "r' \<in> set out"
  shows "\<exists>df0 r t. csv = Some df0 \<and> r \<in> set (survivors pd cy (rows df0))
           \<and> parse_timestamp pd (timestamp r) = Some t \<and> r' = cleaned pd df0 r t"
proof -
  from load_data_Some [OF assms(1)] obtain df0 where csv: "csv = Some df0" by blast
  from load_data_normal_form [OF assms(1) [unfolded csv]] assms(2)
  obtain r where r: "r \<in> set (survivors pd cy (rows df0))"
    and r': "r' = cleaned pd df0 r (the (parse_timestamp pd (timestamp r)))" by auto
  from survivors_parsed [OF r] obtain t where "parse_timestamp pd (timestamp r) = Some t" by blast
  with csv r r' show ?thesis by auto
qed

subsection \<open>The example files, evaluated\<close>

lemma ref_header:
  "\<forall>h\<in>{''timestamp'', ''''}.
     (\<forall>fmt\<in>set formats. to_datetime_format pandas_ref h fmt \<in> {Raises, Returns None})
     \<and> to_datetime_infer pandas_ref h \<in> {Raises, Returns None}"
  by code_simp

lemma load_example: "load_data pandas_ref 2026 (Some posts_example) = Inr cleaned_example"
  by code_simp

lemma load_offset:
  "load_data pandas_ref 2026 (Some posts_offset)
     = Inr (projr (load_data pandas_ref 2026 (Some posts_offset)))"
  by code_simp


lemma main_offset:
  "main pandas_ref 2026 (Some posts_offset) []
     = Returns (Some (the (result (main pandas_ref 2026 (Some posts_offset) []))))"
  by code_simp

lemma main_example:
  "main pandas_ref 2026 (Some posts_example) [2021]
     = Returns (Some (the (result (main pandas_ref 2026 (Some posts_example) [2021]))))"
  by code_simp

subsection \<open>Timestamp parsing\<close>

text \<open>
  Claim C1. For every raw timestamp string, the listed formats are tried in
  order and the first call that returns decides the result; when every listed
  format raises, the result is what the generic inference returns, and null when
  that raises too; a row whose parsed timestamp is null is not in the cleaned
  frame. The two literals that line 50 answers with NaT before the loop,
  'timestamp' and the empty string, are strings on which the library yields no
  timestamp: this is the hypothesis, under which the statement holds for every
  string.
\<close>

theorem parse_timestamp_first_format_wins:
  assumes hdr: "\<forall>h\<in>{''timestamp'', ''''}.
                  (\<forall>fmt\<in>set formats. to_datetime_format pd h fmt \<in> {Raises, Returns None})
                  \<and> to_datetime_infer pd h \<in> {Raises, Returns None}"
  shows "formats = [''%Y-%m-%dT%H:%M:%S%z'', ''%Y-%m-%dT%H:%M:%S+0000'',
                    ''%Y-%m-%dT%H:%M:%S'', ''%Y-%m-%d %H:%M:%S'', ''%Y-%m-%d'']
       \<and> (\<forall>k t. k < length formats
              \<and> to_datetime_format pd s (formats ! k) = Returns t
              \<and> (\<forall>j<k. to_datetime_format pd s (formats ! j) = Raises)
            \<longrightarrow> parse_timestamp pd (Str s) = t)
       \<and> ((\<forall>fmt\<in>set formats. to_datetime_format pd s fmt = Raises)
            \<longrightarrow> parse_timestamp pd (Str s)
                 = (case to_datetime_infer pd s of Returns t \<Rightarrow> t | Raises \<Rightarrow> None))
       \<and> (load_data pd cy csv = Inr out
            \<longrightarrow> (\<forall>r\<in>set out. parse_timestamp pd (timestamp r) = Some (timestamp_parsed r)))"
proof (intro conjI allI impI ballI)
  show "formats = [''%Y-%m-%dT%H:%M:%S%z'', ''%Y-%m-%dT%H:%M:%S+0000'',
                    ''%Y-%m-%dT%H:%M:%S'', ''%Y-%m-%d %H:%M:%S'', ''%Y-%m-%d'']"
    by (simp add: formats_def)
next
  fix k t
  assume a: "k < length formats
              \<and> to_datetime_format pd s (formats ! k) = Returns t
              \<and> (\<forall>j<k. to_datetime_format pd s (formats ! j) = Raises)"
  then have tf: "try_formats pd s formats = Some t"
    using try_formats_first [of k formats pd s t] by blast
  show "parse_timestamp pd (Str s) = t"
  proof (cases "s = ''timestamp'' \<or> s = ''''")
    case True
    from a have "formats ! k \<in> set formats" by simp
    with hdr True have "to_datetime_format pd s (formats ! k) \<in> {Raises, Returns None}"
      by blast
    with a have "t = None" by simp
    with True show ?thesis by (auto simp: parse_timestamp_def)
  next
    case False
    with tf show ?thesis by (simp add: parse_timestamp_def isna_def str_def)
  qed
next
  assume a: "\<forall>fmt\<in>set formats. to_datetime_format pd s fmt = Raises"
  then have tf: "try_formats pd s formats = None" by (rule try_formats_none)
  show "parse_timestamp pd (Str s)
          = (case to_datetime_infer pd s of Returns t \<Rightarrow> t | Raises \<Rightarrow> None)"
  proof (cases "s = ''timestamp'' \<or> s = ''''")
    case True
    with hdr have "to_datetime_infer pd s \<in> {Raises, Returns None}" by auto
    with True show ?thesis by (auto simp: parse_timestamp_def)
  next
    case False
    with tf show ?thesis by (simp add: parse_timestamp_def isna_def str_def)
  qed
next
  fix r
  assume "load_data pd cy csv = Inr out" and "r \<in> set out"
  from load_data_rows [OF this] show "parse_timestamp pd (timestamp r) = Some (timestamp_parsed r)"
    by auto
qed

theorem parse_timestamp_first_format_wins_witness:
  "parse_timestamp pandas_ref (Str ''2020-02-15 08:30:00'')
     = Some \<lparr>cyear = 2020, cmonth = 2, cday = 15, chour = 8, cminute = 30, csecond = 0,
             tzinfo = None\<rparr>
   \<and> parse_timestamp pandas_ref (Str ''06/01/2021'')
     = Some \<lparr>cyear = 2021, cmonth = 6, cday = 1, chour = 0, cminute = 0, csecond = 0,
             tzinfo = None\<rparr>
   \<and> list_all (\<lambda>r. parse_timestamp pandas_ref (timestamp r) = Some (timestamp_parsed r))
        cleaned_example"
proof -
  note T = parse_timestamp_first_format_wins [OF ref_header]
  let ?t = "Some \<lparr>cyear = 2020, cmonth = 2, cday = 15, chour = 8, cminute = 30, csecond = 0,
                   tzinfo = None\<rparr>"
  have "\<forall>j\<in>set [0..<3].
          to_datetime_format pandas_ref ''2020-02-15 08:30:00'' (formats ! j) = Raises"
    by code_simp
  then have e: "\<forall>j<3. to_datetime_format pandas_ref ''2020-02-15 08:30:00'' (formats ! j) = Raises"
    by simp
  have w: "3 < length formats
           \<and> to_datetime_format pandas_ref ''2020-02-15 08:30:00'' (formats ! 3) = Returns ?t"
    by code_simp
  from T [where s = "''2020-02-15 08:30:00''"] w e
  have a: "parse_timestamp pandas_ref (Str ''2020-02-15 08:30:00'') = ?t" by blast
  have r: "\<forall>fmt\<in>set formats. to_datetime_format pandas_ref ''06/01/2021'' fmt = Raises"
    by code_simp
  have i: "(case to_datetime_infer pandas_ref ''06/01/2021'' of Returns t \<Rightarrow> t | Raises \<Rightarrow> None)
            = Some \<lparr>cyear = 2021, cmonth = 6, cday = 1, chour = 0, cminute = 0, csecond = 0,
                    tzinfo = None\<rparr>"
    by code_simp
  from T [where s = "''06/01/2021''"] r
  have "parse_timestamp pandas_ref (Str ''06/01/2021'')
          = (case to_datetime_infer pandas_ref ''06/01/2021'' of Returns t \<Rightarrow> t | Raises \<Rightarrow> None)"
    by blast
  with i have b: "parse_timestamp pandas_ref (Str ''06/01/2021'')
            = Some \<lparr>cyear = 2021, cmonth = 6, cday = 1, chour = 0, cminute = 0, csecond = 0,
                    tzinfo = None\<rparr>" by simp
  from T [where csv = "Some posts_example" and cy = 2026 and out = cleaned_example] load_example
  have "\<forall>r\<in>set cleaned_example.
          parse_timestamp pandas_ref (timestamp r) = Some (timestamp_parsed r)" by blast
  then have c: "list_all (\<lambda>r. parse_timestamp pandas_ref (timestamp r) = Some (timestamp_parsed r))
        cleaned_example" by (simp add: list_all_iff)
  from a b c show ?thesis by blast
qed

subsection \<open>The repeated header line\<close>

lemma drop_header_idem: "drop_header (drop_header df) = drop_header df"
  by (simp add: drop_header_def)

lemma parse_header_None: "parse_timestamp pd (Str ''timestamp'') = None"
  by (simp add: parse_timestamp_def)

text \<open>
  Claim C7. A row whose timestamp field is the literal 'timestamp' is removed
  first: load_data gives the same result as on the frame without such rows, no
  row of the cleaned frame has that timestamp, and parse_timestamp maps the
  literal to NaT whatever the library does.
\<close>

theorem header_row_excluded:
  "parse_timestamp pd (Str ''timestamp'') = None
   \<and> load_data pd cy (Some frame)
       = load_data pd cy
           (Some (frame\<lparr>rows := filter (\<lambda>r. timestamp r \<noteq> Str ''timestamp'') (rows frame)\<rparr>))
   \<and> (\<forall>r\<in>set (rows frame). timestamp r \<noteq> Str ''timestamp'' \<longrightarrow> r \<in> set (drop_header (rows frame)))
   \<and> (\<forall>r\<in>set (drop_header (rows frame)). timestamp r \<noteq> Str ''timestamp'')
   \<and> (load_data pd cy csv = Inr out \<longrightarrow> (\<forall>r\<in>set out. timestamp r \<noteq> Str ''timestamp''))"
proof (intro conjI impI ballI)
  show "parse_timestamp pd (Str ''timestamp'') = None" by (rule parse_header_None)
next
  show "load_data pd cy (Some frame)
       = load_data pd cy
           (Some (frame\<lparr>rows := filter (\<lambda>r. timestamp r \<noteq> Str ''timestamp'') (rows frame)\<rparr>))"
    using drop_header_idem [of "rows frame"]
    by (simp add: load_data_def Let_def drop_header_def)
next
  fix r assume "r \<in> set (rows frame)" "timestamp r \<noteq> Str ''timestamp''"
  then show "r \<in> set (drop_header (rows frame))" by (simp add: drop_header_def)
next
  fix r assume "r \<in> set (drop_header (rows frame))"
  then show "timestamp r \<noteq> Str ''timestamp''" by (simp add: drop_header_def)
next
  fix r
  assume "load_data pd cy csv = Inr out" and "r \<in> set out"
  from load_data_rows [OF this] obtain frame r0 t
    where "r0 \<in> set (survivors pd cy (rows frame))" and "r = cleaned pd frame r0 t" by blast
  with survivors_parsed [of r0 pd cy "rows frame"] show "timestamp r \<noteq> Str ''timestamp''" by simp
qed

theorem header_row_excluded_witness:
  "parse_timestamp pandas_ref (Str ''timestamp'') = None
   \<and> load_data pandas_ref 2026 (Some posts_example)
       = load_data pandas_ref 2026
           (Some (posts_example
              \<lparr>rows := filter (\<lambda>r. timestamp r \<noteq> Str ''timestamp'') (rows posts_example)\<rparr>))
   \<and> list_all (\<lambda>r. timestamp r \<noteq> Str ''timestamp'') cleaned_example
   \<and> map idx (rows posts_example) = [0, 1, 2, 3, 4, 5, 6]
   \<and> map idx (drop_header (rows posts_example)) = [0, 2, 3, 4, 5, 6]
   \<and> map idx cleaned_example = [0, 2, 4, 5]"
proof -
  note T = header_row_excluded [where pd = pandas_ref and cy = 2026 and frame = posts_example
      and csv = "Some posts_example" and out = cleaned_example]
  from T load_example
  have "\<forall>r\<in>set cleaned_example. timestamp r \<noteq> Str ''timestamp''" by blast
  then have a: "list_all (\<lambda>r. timestamp r \<noteq> Str ''timestamp'') cleaned_example"
    by (simp add: list_all_iff)
  have b: "map idx cleaned_example = [0, 2, 4, 5]" by code_simp
  have c: "map idx (rows posts_example) = [0, 1, 2, 3, 4, 5, 6]" by code_simp
  have d: "map idx (drop_header (rows posts_example)) = [0, 2, 3, 4, 5, 6]" by code_simp
  from T a b c d show ?thesis by blast
qed

subsection \<open>The year range\<close>


lemma main_Some:
  "main pd cy csv sel = Returns (Some ch) \<Longrightarrow>
     \<exists>df. load_data pd cy csv = Inr df \<and> df \<noteq> []
       \<and> chart_yearly ch = yearly_posts (df_filtered sel df)
       \<and> chart_hourly ch = hourly_posts (df_filtered sel df)
       \<and> chart_heatmap ch = heatmap_data (df_filtered sel df)
       \<and> chart_monthly ch = posts_por_mes df
       \<and> chart_media_movel ch = media_movel (map snd (posts_por_mes df))
       \<and> chart_sizes ch = sizes (df_after_main pd df)
       \<and> chart_weekday ch = weekday_posts (df_filtered sel df)
       \<and> df_final ch = df_after_main pd df"
  by (auto simp: main_def Let_def split: sum.splits if_splits)

lemma df_filtered_subset: "set (df_filtered sel df) \<subseteq> set df"
  by (auto simp: df_filtered_def)


lemma reparse_utc_length: "length (reparse_utc pd df) = length df"
  by (simp add: reparse_utc_def Let_def)

lemma df_after_main_length: "length (df_after_main pd df) = length df"
  by (simp add: df_after_main_def reparse_utc_length)

lemma df_after_main_nth:
  "i < length df \<Longrightarrow> df_after_main pd df ! i = mutate_row (df ! i) (reparse_utc pd df ! i)"
  by (simp add: df_after_main_def reparse_utc_length)

lemma mutate_row_sel [simp]:
  "idx (mutate_row r x) = idx r" "username (mutate_row r x) = username r"
  "followers_count (mutate_row r x) = followers_count r"
  "media_count (mutate_row r x) = media_count r"
  "timestamp_parsed (mutate_row r x) = timestamp_parsed r"
  "year (mutate_row r x) = year r" "month (mutate_row r x) = month r"
  "day (mutate_row r x) = day r" "hour (mutate_row r x) = hour r"
  "weekday (mutate_row r x) = weekday r" "date (mutate_row r x) = date r"
  "timestamp (mutate_row r x) = (case x of None \<Rightarrow> NaT | Some t \<Rightarrow> Utc t)"
  "periodo (mutate_row r x) = classify x"
  "ano_mes (mutate_row r x) = map_option (\<lambda>t. (cyear t, cmonth t)) x"
  by (simp_all add: mutate_row_def clean_row.defs main_row.defs)



subsection \<open>The empty result\<close>

lemma convert_timestamps:
  "map timestamp (convert_media pd cols (convert_followers pd cols df)) = map timestamp df"
  by (simp add: convert_media_map convert_followers_map comp_def)

lemma dropna_parsed_empty:
  "dropna_parsed pd df = [] \<longleftrightarrow> (\<forall>c\<in>set (map timestamp df). parse_timestamp pd c = None)"
  by (auto simp: dropna_parsed_eq filter_empty_conv)

lemma dropna_converted_empty:
  "dropna_parsed pd (convert_media pd cols (convert_followers pd cols df)) = []
     \<longleftrightarrow> (\<forall>r\<in>set df. parse_timestamp pd (timestamp r) = None)"
  unfolding dropna_parsed_empty convert_timestamps by simp

lemma drop_header_all_unparsed:
  "(\<forall>r\<in>set (drop_header df). parse_timestamp pd (timestamp r) = None)
     \<longleftrightarrow> (\<forall>r\<in>set df. parse_timestamp pd (timestamp r) = None)"
  by (auto simp: drop_header_def parse_header_None)

lemma load_data_NoValid_iff:
  "load_data pd cy (Some df0) = Inl NoValidTimestamps
     \<longleftrightarrow> ''timestamp'' \<in> set (columns df0)
         \<and> (\<forall>r\<in>set (rows df0). parse_timestamp pd (timestamp r) = None)"
  by (simp add: load_data_def Let_def dropna_converted_empty drop_header_all_unparsed)

text \<open>
  Claim C3, amended. load_data ends with the "no valid timestamp" failure, which
  differs from the read failure, exactly when the frame has a timestamp column
  and no row with a timestamp that parses; a frame it returns has a parsed
  timestamp in every row. The year filter runs after that check: when it removes
  every row, load_data returns an empty frame, on which main returns before any
  chart.
\<close>

theorem no_valid_timestamps_failure:
  "NoValidTimestamps \<noteq> LoadError
   \<and> load_data pd cy None = Inl LoadError
   \<and> (load_data pd cy (Some frame) = Inl NoValidTimestamps
        \<longleftrightarrow> ''timestamp'' \<in> set (columns frame)
            \<and> (\<forall>r\<in>set (rows frame). parse_timestamp pd (timestamp r) = None))
   \<and> (load_data pd cy csv = Inr out \<longrightarrow>
        (\<forall>r\<in>set out. parse_timestamp pd (timestamp r) = Some (timestamp_parsed r)))
   \<and> (load_data pd cy csv = Inr [] \<longrightarrow> main pd cy csv sel = Returns None)"
proof (intro conjI impI ballI)
  show "NoValidTimestamps \<noteq> LoadError" by simp
  show "load_data pd cy None = Inl LoadError" by (simp add: load_data_def)
  show "load_data pd cy (Some frame) = Inl NoValidTimestamps
        \<longleftrightarrow> ''timestamp'' \<in> set (columns frame)
            \<and> (\<forall>r\<in>set (rows frame). parse_timestamp pd (timestamp r) = None)"
    by (rule load_data_NoValid_iff)
next
  fix r assume "load_data pd cy csv = Inr out" "r \<in> set out"
  from load_data_rows [OF this]
  show "parse_timestamp pd (timestamp r) = Some (timestamp_parsed r)" by auto
next
  assume "load_data pd cy csv = Inr []"
  then show "main pd cy csv sel = Returns None" by (simp add: main_def)
qed

text \<open>
  A failure whenever no row survives the whole pipeline, year filter included,
  is more than the code gives. A file whose only row is dated 2005 passes the
  check of line 84 and is emptied by the year filter: load_data returns the
  empty frame.
\<close>

theorem empty_table_returned_counterexample:
  "posts_old = read_csv posts_columns [(Str ''2005-01-01'', Str ''ana'', Str ''10'', Str ''3'')]
   \<and> load_data pandas_ref 2026 (Some posts_old) = Inr []"
  by (rule conjI, rule posts_old_def, code_simp)

theorem no_valid_timestamps_failure_witness:
  "load_data pandas_ref 2026 (Some posts_unparseable) = Inl NoValidTimestamps
   \<and> load_data pandas_ref 2026 None = Inl LoadError
   \<and> list_all (\<lambda>r. parse_timestamp pandas_ref (timestamp r) = Some (timestamp_parsed r))
        cleaned_example
   \<and> load_data pandas_ref 2026 (Some posts_old) = Inr []
   \<and> main pandas_ref 2026 (Some posts_old) [] = Returns None"
proof -
  note T = no_valid_timestamps_failure [where pd = pandas_ref and cy = 2026]
  have h: "''timestamp'' \<in> set (columns posts_unparseable)
           \<and> (\<forall>r\<in>set (rows posts_unparseable). parse_timestamp pandas_ref (timestamp r) = None)"
    by code_simp
  from T [where frame = posts_unparseable] h
  have a: "load_data pandas_ref 2026 (Some posts_unparseable) = Inl NoValidTimestamps" by blast
  from T have b: "load_data pandas_ref 2026 None = Inl LoadError" by blast
  from T [where csv = "Some posts_example" and out = cleaned_example] load_example
  have "\<forall>r\<in>set cleaned_example.
          parse_timestamp pandas_ref (timestamp r) = Some (timestamp_parsed r)" by blast
  then have c: "list_all (\<lambda>r. parse_timestamp pandas_ref (timestamp r) = Some (timestamp_parsed r))
        cleaned_example" by (simp add: list_all_iff)
  have d: "load_data pandas_ref 2026 (Some posts_old) = Inr []" by code_simp
  from T [where csv = "Some posts_old" and sel = "[]"] d
  have e: "main pandas_ref 2026 (Some posts_old) [] = Returns None" by blast
  from a b c d e show ?thesis by blast
qed

subsection \<open>The numeric columns\<close>

lemma load_data_followers:
  assumes ld: "load_data pd cy (Some df0) = Inr out"
  shows "map (\<lambda>r. (idx r, timestamp r, username r)) out
           = map (\<lambda>r. (idx r, timestamp r, username r)) (survivors pd cy (rows df0))"
    and "''followers_count'' \<in> set (columns df0) \<Longrightarrow>
           map followers_count out
             = map (\<lambda>r. if to_numeric_raises pd (map followers_count (drop_header (rows df0)))
                         then Num 0 else fillna0 (to_numeric pd (followers_count r)))
                 (survivors pd cy (rows df0))"
    and "''media_count'' \<in> set (columns df0) \<Longrightarrow>
           map media_count out
             = map (\<lambda>r. if to_numeric_raises pd (map media_count (drop_header (rows df0)))
                         then Num 0 else fillna0 (to_numeric pd (media_count r)))
                 (survivors pd cy (rows df0))"
    and "''followers_count'' \<notin> set (columns df0) \<Longrightarrow>
           map followers_count out = map followers_count (survivors pd cy (rows df0))"
    and "''media_count'' \<notin> set (columns df0) \<Longrightarrow>
           map media_count out = map media_count (survivors pd cy (rows df0))"
  unfolding load_data_normal_form [OF ld]
  by (simp_all add: comp_def cleaned_def)

text \<open>
  Claim C5, amended. In the cleaned frame followers_count and media_count are
  numbers, never NaN: text that does not read as a number, and a missing cell,
  become 0, and a value that reads as a number is kept as read, whatever its
  sign. The rows kept do not depend on the two columns.
\<close>

theorem numeric_columns_never_null:
  "(parse_number pd s = None \<longrightarrow> fillna0 (to_numeric pd (Str s)) = Num 0)
   \<and> (parse_number pd s = Some x \<longrightarrow> fillna0 (to_numeric pd (Str s)) = Num x)
   \<and> fillna0 (to_numeric pd NaN) = Num 0
   \<and> (load_data pd cy (Some frame) = Inr out \<longrightarrow>
        map (\<lambda>r. (idx r, timestamp r, username r)) out
          = map (\<lambda>r. (idx r, timestamp r, username r)) (survivors pd cy (rows frame))
      \<and> (''followers_count'' \<in> set (columns frame) \<longrightarrow>
           (\<forall>r\<in>set out. \<exists>v. followers_count r = Num v)
         \<and> map followers_count out
             = map (\<lambda>r. if to_numeric_raises pd (map followers_count (drop_header (rows frame)))
                         then Num 0 else fillna0 (to_numeric pd (followers_count r)))
                 (survivors pd cy (rows frame)))
      \<and> (''media_count'' \<in> set (columns frame) \<longrightarrow>
           (\<forall>r\<in>set out. \<exists>v. media_count r = Num v)
         \<and> map media_count out
             = map (\<lambda>r. if to_numeric_raises pd (map media_count (drop_header (rows frame)))
                         then Num 0 else fillna0 (to_numeric pd (media_count r)))
                 (survivors pd cy (rows frame))))"
proof (intro conjI impI ballI)
  show "fillna0 (to_numeric pd (Str s)) = Num 0" if "parse_number pd s = None"
    using that by (simp add: fillna0_def to_numeric_def)
  show "fillna0 (to_numeric pd (Str s)) = Num x" if "parse_number pd s = Some x"
    using that by (simp add: fillna0_def to_numeric_def)
  show "fillna0 (to_numeric pd NaN) = Num 0" by simp
next
  assume ld: "load_data pd cy (Some frame) = Inr out"
  show "map (\<lambda>r. (idx r, timestamp r, username r)) out
          = map (\<lambda>r. (idx r, timestamp r, username r)) (survivors pd cy (rows frame))"
    by (rule load_data_followers(1) [OF ld])
  {
    assume c: "''followers_count'' \<in> set (columns frame)"
    show m: "map followers_count out
             = map (\<lambda>r. if to_numeric_raises pd (map followers_count (drop_header (rows frame)))
                         then Num 0 else fillna0 (to_numeric pd (followers_count r)))
                 (survivors pd cy (rows frame))"
      by (rule load_data_followers(2) [OF ld c])
    fix r assume "r \<in> set out"
    then have "followers_count r \<in> set (map followers_count out)" by simp
    then show "\<exists>v. followers_count r = Num v"
      unfolding m using fillna0_Num by auto
  }
  {
    assume c: "''media_count'' \<in> set (columns frame)"
    show m: "map media_count out
             = map (\<lambda>r. if to_numeric_raises pd (map media_count (drop_header (rows frame)))
                         then Num 0 else fillna0 (to_numeric pd (media_count r)))
                 (survivors pd cy (rows frame))"
      by (rule load_data_followers(3) [OF ld c])
    fix r assume "r \<in> set out"
    then have "media_count r \<in> set (map media_count out)" by simp
    then show "\<exists>v. media_count r = Num v"
      unfolding m using fillna0_Num by auto
  }
qed

text \<open>
  A followers_count of at least 0 is more than the code gives. The raw value
  '-5' reads as a number and is stored as it is.
\<close>

theorem negative_followers_counterexample:
  "posts_negative = read_csv posts_columns [(Str ''2021-06-01'', Str ''dan'', Str ''-5'', Str ''4'')]
   \<and> load_data pandas_ref 2026 (Some posts_negative)
       = Inr [\<lparr>idx = 0, timestamp = Str ''2021-06-01'', username = Str ''dan'',
               followers_count = Num (- 5), media_count = Num 4,
               timestamp_parsed =
                 \<lparr>cyear = 2021, cmonth = 6, cday = 1, chour = 0, cminute = 0, csecond = 0,
                  tzinfo = None\<rparr>,
               year = 2021, month = 6, day = 1, hour = 0, weekday = ''Tuesday'',
               date = (2021, 6, 1)\<rparr>]
   \<and> (- 5 :: real) < 0"
  by (intro conjI, rule posts_negative_def, code_simp, simp)

theorem numeric_columns_never_null_witness:
  "map followers_count cleaned_example = [Num 120, Num 0, Num 0, Num (- 5)]
   \<and> map media_count cleaned_example = [Num 3, Num 7, Num (5 / 2), Num 0]
   \<and> map (\<lambda>r. (idx r, timestamp r, username r)) cleaned_example
       = [(0, Str ''2019-01-01'', Str ''ana''), (2, Str ''2020-02-15 08:30:00'', Str ''bob''),
          (4, Str ''2020-03-01T00:00:00'', Str ''ana''), (5, Str ''06/01/2021'', Str ''dan'')]
   \<and> list_all (\<lambda>r. \<exists>v. followers_count r = Num v) cleaned_example
   \<and> fillna0 (to_numeric pandas_ref (Str ''abc'')) = Num 0
   \<and> fillna0 (to_numeric pandas_ref (Str ''-5'')) = Num (- 5)"
proof -
  note T = numeric_columns_never_null [where pd = pandas_ref and cy = 2026
      and frame = posts_example and out = cleaned_example]
  have cols: "''followers_count'' \<in> set (columns posts_example)"
    "''media_count'' \<in> set (columns posts_example)" by code_simp+
  from T load_example cols(1)
  have f: "map followers_count cleaned_example
             = map (\<lambda>r. if to_numeric_raises pandas_ref
                               (map followers_count (drop_header (rows posts_example)))
                         then Num 0 else fillna0 (to_numeric pandas_ref (followers_count r)))
                 (survivors pandas_ref 2026 (rows posts_example))"
    and fn: "\<forall>r\<in>set cleaned_example. \<exists>v. followers_count r = Num v" by blast+
  from T load_example cols(2)
  have m: "map media_count cleaned_example
             = map (\<lambda>r. if to_numeric_raises pandas_ref
                               (map media_count (drop_header (rows posts_example)))
                         then Num 0 else fillna0 (to_numeric pandas_ref (media_count r)))
                 (survivors pandas_ref 2026 (rows posts_example))" by blast
  from T load_example
  have k: "map (\<lambda>r. (idx r, timestamp r, username r)) cleaned_example
          = map (\<lambda>r. (idx r, timestamp r, username r)) (survivors pandas_ref 2026 (rows posts_example))"
    by blast
  have fe: "map (\<lambda>r. if to_numeric_raises pandas_ref
                               (map followers_count (drop_header (rows posts_example)))
                         then Num 0 else fillna0 (to_numeric pandas_ref (followers_count r)))
                 (survivors pandas_ref 2026 (rows posts_example))
             = [Num 120, Num 0, Num 0, Num (- 5)]" by code_simp
  have me: "map (\<lambda>r. if to_numeric_raises pandas_ref
                               (map media_count (drop_header (rows posts_example)))
                         then Num 0 else fillna0 (to_numeric pandas_ref (media_count r)))
                 (survivors pandas_ref 2026 (rows posts_example))
             = [Num 3, Num 7, Num (5 / 2), Num 0]" by code_simp
  have ke: "map (\<lambda>r. (idx r, timestamp r, username r)) (survivors pandas_ref 2026 (rows posts_example))
       = [(0, Str ''2019-01-01'', Str ''ana''), (2, Str ''2020-02-15 08:30:00'', Str ''bob''),
          (4, Str ''2020-03-01T00:00:00'', Str ''ana''), (5, Str ''06/01/2021'', Str ''dan'')]"
    by code_simp
  have p1: "parse_number pandas_ref ''abc'' = None" by code_simp
  have p2: "parse_number pandas_ref ''-5'' = Some (- 5)" by code_simp
  from T [where s = "''abc''"] p1 have z: "fillna0 (to_numeric pandas_ref (Str ''abc'')) = Num 0"
    by blast
  from T [where s = "''-5''" and x = "- 5"] p2
  have n: "fillna0 (to_numeric pandas_ref (Str ''-5'')) = Num (- 5)" by blast
  from fn have l: "list_all (\<lambda>r. \<exists>v. followers_count r = Num v) cleaned_example"
    by (simp add: list_all_iff)
  from f fe m me k ke z n l show ?thesis by simp
qed

subsection \<open>The zone of a parsed timestamp\<close>

lemma parse_timestamp_source:
  assumes "parse_timestamp pd (Str s) = Some t"
  shows "(\<exists>fmt\<in>set formats. to_datetime_format pd s fmt = Returns (Some t))
         \<or> to_datetime_infer pd s = Returns (Some t)"
proof (cases "try_formats pd s formats")
  case None
  with assms show ?thesis
    by (auto simp: parse_timestamp_def isna_def str_def split: if_splits attempt.splits)
next
  case (Some v)
  with assms have "v = Some t"
    by (auto simp: parse_timestamp_def isna_def str_def split: if_splits)
  with Some try_formats_Some [of pd s formats v] show ?thesis by blast
qed

text \<open>
  Claim C6, amended. parse_timestamp returns the Timestamp of the library call
  that succeeded, as it is; load_data stores it in timestamp_parsed without a
  change of zone and reads the calendar columns from its wall-clock fields. Only
  main's later re-parse of the timestamp column stores UTC datetimes (or NaT).
\<close>

theorem timestamp_keeps_parsed_zone:
  "(parse_timestamp pd (Str s) = Some t \<longrightarrow>
      (\<exists>fmt\<in>set formats. to_datetime_format pd s fmt = Returns (Some t))
      \<or> to_datetime_infer pd s = Returns (Some t))
   \<and> (load_data pd cy csv = Inr out \<longrightarrow>
        (\<forall>r\<in>set out.
           parse_timestamp pd (timestamp r) = Some (timestamp_parsed r)
           \<and> year r = cyear (timestamp_parsed r) \<and> month r = cmonth (timestamp_parsed r)
           \<and> day r = cday (timestamp_parsed r) \<and> hour r = chour (timestamp_parsed r)
           \<and> date r = (cyear (timestamp_parsed r), cmonth (timestamp_parsed r),
                        cday (timestamp_parsed r))))
   \<and> (main pd cy csv sel = Returns (Some ch) \<longrightarrow>
        (\<forall>r\<in>set (df_final ch). timestamp r = NaT \<or> (\<exists>u. timestamp r = Utc u)))"
proof (intro conjI impI ballI)
  assume "parse_timestamp pd (Str s) = Some t"
  then show "(\<exists>fmt\<in>set formats. to_datetime_format pd s fmt = Returns (Some t))
      \<or> to_datetime_infer pd s = Returns (Some t)"
    by (rule parse_timestamp_source)
next
  fix r assume "load_data pd cy csv = Inr out" "r \<in> set out"
  from load_data_rows [OF this] obtain df0 r0 t
    where p: "parse_timestamp pd (timestamp r0) = Some t" and r: "r = cleaned pd df0 r0 t"
    by blast
  from p r show "parse_timestamp pd (timestamp r) = Some (timestamp_parsed r)"
    "year r = cyear (timestamp_parsed r)" "month r = cmonth (timestamp_parsed r)"
    "day r = cday (timestamp_parsed r)" "hour r = chour (timestamp_parsed r)"
    "date r = (cyear (timestamp_parsed r), cmonth (timestamp_parsed r), cday (timestamp_parsed r))"
    by simp_all
next
  fix r assume m: "main pd cy csv sel = Returns (Some ch)" and r: "r \<in> set (df_final ch)"
  from main_Some [OF m] obtain df where fin: "df_final ch = df_after_main pd df" by blast
  from r obtain i where "i < length df" and "r = df_after_main pd df ! i"
    by (auto simp: fin in_set_conv_nth df_after_main_length)
  then show "timestamp r = NaT \<or> (\<exists>u. timestamp r = Utc u)"
    by (cases "reparse_utc pd df ! i") (simp_all add: df_after_main_nth)
qed

text \<open>
  A parsed instant expressed in UTC is more than the code gives. A raw string
  with the offset +0300 is stored at that offset, one hour into 2020, while its
  instant in UTC is 22:00 on the last day of 2019.
\<close>

theorem offset_not_normalised_counterexample:
  "posts_offset = read_csv posts_columns
     [(Str ''2020-01-01T01:00:00+0300'', Str ''ana'', Str ''10'', Str ''3'')]
   \<and> load_data pandas_ref 2026 (Some posts_offset)
       = Inr [\<lparr>idx = 0, timestamp = Str ''2020-01-01T01:00:00+0300'', username = Str ''ana'',
               followers_count = Num 10, media_count = Num 3,
               timestamp_parsed =
                 \<lparr>cyear = 2020, cmonth = 1, cday = 1, chour = 1, cminute = 0, csecond = 0,
                  tzinfo = Some 180\<rparr>,
               year = 2020, month = 1, day = 1, hour = 1, weekday = ''Wednesday'',
               date = (2020, 1, 1)\<rparr>]
   \<and> to_utc \<lparr>cyear = 2020, cmonth = 1, cday = 1, chour = 1, cminute = 0, csecond = 0,
              tzinfo = Some 180\<rparr>
       = \<lparr>cyear = 2019, cmonth = 12, cday = 31, chour = 22, cminute = 0, csecond = 0\<rparr>"
  by (intro conjI, rule posts_offset_def, code_simp, code_simp)

theorem timestamp_keeps_parsed_zone_witness:
  "((\<exists>fmt\<in>set formats.
        to_datetime_format pandas_ref ''2020-01-01T01:00:00+0300'' fmt
          = Returns (Some \<lparr>cyear = 2020, cmonth = 1, cday = 1, chour = 1, cminute = 0,
                            csecond = 0, tzinfo = Some 180\<rparr>))
     \<or> to_datetime_infer pandas_ref ''2020-01-01T01:00:00+0300''
          = Returns (Some \<lparr>cyear = 2020, cmonth = 1, cday = 1, chour = 1, cminute = 0,
                            csecond = 0, tzinfo = Some 180\<rparr>))
   \<and> list_all (\<lambda>r. parse_timestamp pandas_ref (timestamp r) = Some (timestamp_parsed r)
                    \<and> hour r = chour (timestamp_parsed r))
        (projr (load_data pandas_ref 2026 (Some posts_offset)))
   \<and> map (\<lambda>r. (tzinfo (timestamp_parsed r), year r, hour r))
        (projr (load_data pandas_ref 2026 (Some posts_offset))) = [(Some 180, 2020, 1)]
   \<and> list_all (\<lambda>r. timestamp r = NaT \<or> (\<exists>u. timestamp r = Utc u))
        (df_final (the (result (main pandas_ref 2026 (Some posts_offset) []))))
   \<and> map timestamp (df_final (the (result (main pandas_ref 2026 (Some posts_offset) []))))
       = [Utc \<lparr>cyear = 2019, cmonth = 12, cday = 31, chour = 22, cminute = 0, csecond = 0\<rparr>]"
proof -
  note T = timestamp_keeps_parsed_zone [where pd = pandas_ref and cy = 2026
      and csv = "Some posts_offset" and sel = "[]"
      and out = "projr (load_data pandas_ref 2026 (Some posts_offset))"
      and ch = "the (result (main pandas_ref 2026 (Some posts_offset) []))"
      and s = "''2020-01-01T01:00:00+0300''"
      and t = "\<lparr>cyear = 2020, cmonth = 1, cday = 1, chour = 1, cminute = 0,
                            csecond = 0, tzinfo = Some 180\<rparr>"]
  have p: "parse_timestamp pandas_ref (Str ''2020-01-01T01:00:00+0300'')
            = Some \<lparr>cyear = 2020, cmonth = 1, cday = 1, chour = 1, cminute = 0,
                            csecond = 0, tzinfo = Some 180\<rparr>" by code_simp
  from T p have a: "(\<exists>fmt\<in>set formats.
        to_datetime_format pandas_ref ''2020-01-01T01:00:00+0300'' fmt
          = Returns (Some \<lparr>cyear = 2020, cmonth = 1, cday = 1, chour = 1, cminute = 0,
                            csecond = 0, tzinfo = Some 180\<rparr>))
     \<or> to_datetime_infer pandas_ref ''2020-01-01T01:00:00+0300''
          = Returns (Some \<lparr>cyear = 2020, cmonth = 1, cday = 1, chour = 1, cminute = 0,
                            csecond = 0, tzinfo = Some 180\<rparr>)" by blast
  from T load_offset
  have "\<forall>r\<in>set (projr (load_data pandas_ref 2026 (Some posts_offset))).
          parse_timestamp pandas_ref (timestamp r) = Some (timestamp_parsed r)
          \<and> hour r = chour (timestamp_parsed r)" by blast
  then have b: "list_all (\<lambda>r. parse_timestamp pandas_ref (timestamp r) = Some (timestamp_parsed r)
                    \<and> hour r = chour (timestamp_parsed r))
        (projr (load_data pandas_ref 2026 (Some posts_offset)))"
    by (simp add: list_all_iff)
  from T main_offset
  have "\<forall>r\<in>set (df_final (the (result (main pandas_ref 2026 (Some posts_offset) [])))).
          timestamp r = NaT \<or> (\<exists>u. timestamp r = Utc u)" by blast
  then have c: "list_all (\<lambda>r. timestamp r = NaT \<or> (\<exists>u. timestamp r = Utc u))
        (df_final (the (result (main pandas_ref 2026 (Some posts_offset) []))))"
    by (simp add: list_all_iff)
  have d: "map (\<lambda>r. (tzinfo (timestamp_parsed r), year r, hour r))
        (projr (load_data pandas_ref 2026 (Some posts_offset))) = [(Some 180, 2020, 1)]"
    by code_simp
  have e: "map timestamp (df_final (the (result (main pandas_ref 2026 (Some posts_offset) []))))
       = [Utc \<lparr>cyear = 2019, cmonth = 12, cday = 31, chour = 22, cminute = 0, csecond = 0\<rparr>]"
    by code_simp
  from a b c d e show ?thesis by blast
qed

subsection \<open>The pandemic split\<close>



lemma map_periodo: "map periodo (df_after_main pd df) = map classify (reparse_utc pd df)"
  by (rule nth_equalityI)
     (simp_all add: df_after_main_length reparse_utc_length df_after_main_nth)











subsection \<open>The moving average\<close>

lemma rolling3_length: "length (rolling3_center_mean xs) = length xs"
  by (simp add: rolling3_center_mean_def)

lemma rolling3_first: "xs \<noteq> [] \<Longrightarrow> rolling3_center_mean xs ! 0 = None"
  by (simp add: rolling3_center_mean_def)

lemma rolling3_last: "xs \<noteq> [] \<Longrightarrow> rolling3_center_mean xs ! (length xs - 1) = None"
  by (simp add: rolling3_center_mean_def)

lemma rolling3_interior:
  "0 < i \<Longrightarrow> i + 1 < length xs \<Longrightarrow>
     rolling3_center_mean xs ! i = Some ((xs ! (i - 1) + xs ! i + xs ! (i + 1)) / 3)"
  by (simp add: rolling3_center_mean_def)

text \<open>
  Claim C8. With three monthly points or fewer the moving average has no
  defined value and its trace is not drawn; with more than three it is undefined
  at the first and the last position and is the mean of the three neighbouring
  counts at every position in between.
\<close>

theorem rolling_average_interior_only:
  "length (media_movel posts) = length posts
   \<and> (length posts \<le> 3 \<longrightarrow>
        media_movel posts = replicate (length posts) None
        \<and> length (filter (\<lambda>v. v \<noteq> None) (media_movel posts)) = 0
        \<and> \<not> media_movel_drawn (media_movel posts))
   \<and> (length posts > 3 \<longrightarrow>
        media_movel posts ! 0 = None
        \<and> media_movel posts ! (length posts - 1) = None
        \<and> (\<forall>i. 0 < i \<and> i < length posts - 1 \<longrightarrow>
              media_movel posts ! i
                = Some ((real (posts ! (i - 1)) + real (posts ! i) + real (posts ! (i + 1))) / 3))
        \<and> media_movel_drawn (media_movel posts))
   \<and> (main pd cy csv sel = Returns (Some ch) \<longrightarrow>
        chart_media_movel ch = media_movel (map snd (chart_monthly ch)))"
proof (intro conjI impI allI)
  show "length (media_movel posts) = length posts"
    by (simp add: media_movel_def rolling3_length)
next
  assume s: "length posts \<le> 3"
  then show r: "media_movel posts = replicate (length posts) None"
    by (simp add: media_movel_def)
  show z: "length (filter (\<lambda>v. v \<noteq> None) (media_movel posts)) = 0"
    unfolding r by simp
  show "\<not> media_movel_drawn (media_movel posts)"
    using z by (simp add: media_movel_drawn_def)
next
  assume l: "length posts > 3"
  then have mm: "media_movel posts = rolling3_center_mean (map real posts)"
    by (simp add: media_movel_def)
  from l have ne: "map real posts \<noteq> []" by auto
  from rolling3_first [OF ne] show "media_movel posts ! 0 = None"
    by (simp add: mm)
  from rolling3_last [OF ne] show "media_movel posts ! (length posts - 1) = None"
    by (simp add: mm)
  show "media_movel posts ! i
          = Some ((real (posts ! (i - 1)) + real (posts ! i) + real (posts ! (i + 1))) / 3)"
    if "0 < i \<and> i < length posts - 1" for i
  proof -
    from that have i: "0 < i" "i + 1 < length (map real posts)" by auto
    from that have "i - 1 < length posts" "i < length posts" "i + 1 < length posts" by auto
    with rolling3_interior [OF i] show ?thesis by (simp add: mm)
  qed
  from l have i1: "(0::nat) < 1" "1 + 1 < length (map real posts)" by auto
  from rolling3_interior [OF i1] l
  have "media_movel posts ! 1 \<noteq> None" "1 < length (media_movel posts)"
    by (simp_all add: mm rolling3_length)
  then have "media_movel posts ! 1 \<in> set (filter (\<lambda>v. v \<noteq> None) (media_movel posts))"
    by (simp add: nth_mem)
  then have "filter (\<lambda>v. v \<noteq> None) (media_movel posts) \<noteq> []"
    by (metis empty_iff list.set(1))
  then show "media_movel_drawn (media_movel posts)"
    by (simp add: media_movel_drawn_def)
next
  assume "main pd cy csv sel = Returns (Some ch)"
  from main_Some [OF this]
  show "chart_media_movel ch = media_movel (map snd (chart_monthly ch))" by auto
qed

theorem rolling_average_interior_only_witness:
  "media_movel [4, 1, 7] = [None, None, None]
   \<and> \<not> media_movel_drawn (media_movel [4, 1, 7])
   \<and> media_movel [1, 2, 3, 4, 6] ! 0 = None
   \<and> media_movel [1, 2, 3, 4, 6] ! 4 = None
   \<and> media_movel [1, 2, 3, 4, 6] ! 2 = Some 3
   \<and> media_movel_drawn (media_movel [1, 2, 3, 4, 6])
   \<and> chart_media_movel (the (result (main pandas_ref 2026 (Some posts_example) [2021])))
       = [None, Some 1, Some 1, None]"
proof -
  note A = rolling_average_interior_only [where posts = "[4, 1, 7]"]
  note B = rolling_average_interior_only [where posts = "[1, 2, 3, 4, 6]"]
  note C = rolling_average_interior_only [where pd = pandas_ref and cy = 2026
      and csv = "Some posts_example" and sel = "[2021]"
      and ch = "the (result (main pandas_ref 2026 (Some posts_example) [2021]))"]
  have la: "length [4, 1, 7 :: nat] \<le> 3" by simp
  from A la have a1: "media_movel [4, 1, 7] = replicate (length [4, 1, 7 :: nat]) None"
    and a2: "\<not> media_movel_drawn (media_movel [4, 1, 7])" by blast+
  from a1 have a1': "media_movel [4, 1, 7] = [None, None, None]"
    by (simp add: numeral_3_eq_3)
  have lb: "length [1, 2, 3, 4, 6 :: nat] > 3" by simp
  from B lb have b1: "media_movel [1, 2, 3, 4, 6] ! 0 = None"
    and b2: "media_movel [1, 2, 3, 4, 6] ! (length [1, 2, 3, 4, 6 :: nat] - 1) = None"
    and b3: "\<forall>i. 0 < i \<and> i < length [1, 2, 3, 4, 6 :: nat] - 1 \<longrightarrow>
              media_movel [1, 2, 3, 4, 6] ! i
                = Some ((real ([1, 2, 3, 4, 6] ! (i - 1)) + real ([1, 2, 3, 4, 6] ! i)
                         + real ([1, 2, 3, 4, 6] ! (i + 1))) / 3)"
    and b4: "media_movel_drawn (media_movel [1, 2, 3, 4, 6])" by blast+
  have l4: "length [1, 2, 3, 4, 6 :: nat] - 1 = 4" by simp
  from b2 have b2': "media_movel [1, 2, 3, 4, 6] ! 4 = None" unfolding l4 .
  have "(0::nat) < 2 \<and> 2 < length [1, 2, 3, 4, 6 :: nat] - 1" by simp
  with b3 have "media_movel [1, 2, 3, 4, 6] ! 2
                = Some ((real ([1, 2, 3, 4, 6] ! (2 - 1)) + real ([1, 2, 3, 4, 6] ! 2)
                         + real ([1, 2, 3, 4, 6] ! (2 + 1))) / 3)" by blast
  moreover have "(real ([1, 2, 3, 4, 6] ! (2 - 1)) + real ([1, 2, 3, 4, 6] ! 2)
                         + real ([1, 2, 3, 4, 6] ! (2 + 1))) / 3 = 3" by code_simp
  ultimately have b3': "media_movel [1, 2, 3, 4, 6] ! 2 = Some 3" by simp
  from C main_example
  have "chart_media_movel (the (result (main pandas_ref 2026 (Some posts_example) [2021])))
          = media_movel (map snd (chart_monthly (the (result (main pandas_ref 2026 (Some posts_example) [2021])))))"
    by blast
  moreover have "media_movel (map snd (chart_monthly (the (result (main pandas_ref 2026 (Some posts_example) [2021])))))
          = [None, Some 1, Some 1, None]" by code_simp
  ultimately have c: "chart_media_movel (the (result (main pandas_ref 2026 (Some posts_example) [2021])))
       = [None, Some 1, Some 1, None]" by simp
  from a1' a2 b1 b2' b3' b4 c show ?thesis by blast
qed

subsection \<open>What main writes to the frame\<close>

text \<open>
  Claim C9, amended. The year filter only selects rows of the frame. main keeps
  the rows, their order and every column load_data wrote except timestamp, which
  lines 364-372 overwrite with the UTC re-parse (NaT where it fails), adding the
  columns periodo and ano_mes.
\<close>

theorem main_overwrites_timestamp_only:
  "(main pd cy csv sel = Returns (Some ch) \<and> load_data pd cy csv = Inr df \<longrightarrow>
      length (df_final ch) = length df
      \<and> map (\<lambda>r. (idx r, username r, followers_count r, media_count r, timestamp_parsed r,
                   year r, month r, day r, hour r, weekday r, date r)) (df_final ch)
          = map (\<lambda>r. (idx r, username r, followers_count r, media_count r, timestamp_parsed r,
                       year r, month r, day r, hour r, weekday r, date r)) df
      \<and> map timestamp (df_final ch)
          = map (\<lambda>x. case x of None \<Rightarrow> NaT | Some t \<Rightarrow> Utc t) (reparse_utc pd df)
      \<and> map periodo (df_final ch) = map classify (reparse_utc pd df)
      \<and> map ano_mes (df_final ch)
          = map (map_option (\<lambda>t. (cyear t, cmonth t))) (reparse_utc pd df))
   \<and> df_filtered sel df
       = (if sel = [] then df else filter (\<lambda>r. year r \<in> set sel) df)
   \<and> set (df_filtered sel df) \<subseteq> set df"
proof (intro conjI impI)
  assume a: "main pd cy csv sel = Returns (Some ch) \<and> load_data pd cy csv = Inr df"
  with main_Some [of pd cy csv sel ch] have fin: "df_final ch = df_after_main pd df" by auto
  show "length (df_final ch) = length df" by (simp add: fin df_after_main_length)
  show "map (\<lambda>r. (idx r, username r, followers_count r, media_count r, timestamp_parsed r,
                   year r, month r, day r, hour r, weekday r, date r)) (df_final ch)
          = map (\<lambda>r. (idx r, username r, followers_count r, media_count r, timestamp_parsed r,
                       year r, month r, day r, hour r, weekday r, date r)) df"
    unfolding fin
    by (rule nth_equalityI) (simp_all add: df_after_main_length df_after_main_nth)
  show "map timestamp (df_final ch)
          = map (\<lambda>x. case x of None \<Rightarrow> NaT | Some t \<Rightarrow> Utc t) (reparse_utc pd df)"
    unfolding fin
    by (rule nth_equalityI)
       (simp_all add: df_after_main_length df_after_main_nth reparse_utc_length)
  show "map periodo (df_final ch) = map classify (reparse_utc pd df)"
    unfolding fin by (rule map_periodo)
  show "map ano_mes (df_final ch)
          = map (map_option (\<lambda>t. (cyear t, cmonth t))) (reparse_utc pd df)"
    unfolding fin
    by (rule nth_equalityI)
       (simp_all add: df_after_main_length df_after_main_nth reparse_utc_length)
next
  show "df_filtered sel df = (if sel = [] then df else filter (\<lambda>r. year r \<in> set sel) df)"
    by (simp add: df_filtered_def)
  show "set (df_filtered sel df) \<subseteq> set df" by (rule df_filtered_subset)
qed

text \<open>
  Every field of every row unchanged is more than the code gives. After main
  the timestamp column holds UTC datetimes in place of the raw strings that
  load_data returned.
\<close>

theorem main_mutates_timestamp_counterexample:
  "map timestamp (projr (load_data pandas_ref 2026 (Some posts_split)))
     = [Str ''2019-01-01'', Str ''2020-02-15'', Str ''2020-03-01'', Str ''2021-06-01'']
   \<and> map timestamp (df_final (the (result (main pandas_ref 2026 (Some posts_split) []))))
     = [Utc \<lparr>cyear = 2019, cmonth = 1, cday = 1, chour = 0, cminute = 0, csecond = 0\<rparr>,
        Utc \<lparr>cyear = 2020, cmonth = 2, cday = 15, chour = 0, cminute = 0, csecond = 0\<rparr>,
        Utc \<lparr>cyear = 2020, cmonth = 3, cday = 1, chour = 0, cminute = 0, csecond = 0\<rparr>,
        Utc \<lparr>cyear = 2021, cmonth = 6, cday = 1, chour = 0, cminute = 0, csecond = 0\<rparr>]
   \<and> main pandas_ref 2026 (Some posts_split) []
       = Returns (Some (the (result (main pandas_ref 2026 (Some posts_split) []))))"
  by (intro conjI; code_simp)

theorem main_overwrites_timestamp_only_witness:
  "length (df_final (the (result (main pandas_ref 2026 (Some posts_example) [2021])))) = 4
   \<and> map (\<lambda>r. (idx r, username r, followers_count r, year r, weekday r))
        (df_final (the (result (main pandas_ref 2026 (Some posts_example) [2021]))))
       = map (\<lambda>r. (idx r, username r, followers_count r, year r, weekday r)) cleaned_example
   \<and> map timestamp (df_final (the (result (main pandas_ref 2026 (Some posts_example) [2021]))))
       = [Utc \<lparr>cyear = 2019, cmonth = 1, cday = 1, chour = 0, cminute = 0, csecond = 0\<rparr>,
          NaT, NaT, NaT]
   \<and> map idx (df_filtered [2021] cleaned_example) = [5]"
proof -
  let ?ch = "the (result (main pandas_ref 2026 (Some posts_example) [2021]))"
  note T = main_overwrites_timestamp_only [where pd = pandas_ref and cy = 2026
      and csv = "Some posts_example" and sel = "[2021]" and ch = ?ch and df = cleaned_example]
  from T main_example load_example
  have l: "length (df_final ?ch) = length cleaned_example"
    and k: "map (\<lambda>r. (idx r, username r, followers_count r, media_count r, timestamp_parsed r,
                   year r, month r, day r, hour r, weekday r, date r)) (df_final ?ch)
          = map (\<lambda>r. (idx r, username r, followers_count r, media_count r, timestamp_parsed r,
                       year r, month r, day r, hour r, weekday r, date r)) cleaned_example"
    and t: "map timestamp (df_final ?ch)
          = map (\<lambda>x. case x of None \<Rightarrow> NaT | Some t \<Rightarrow> Utc t)
              (reparse_utc pandas_ref cleaned_example)"
    by blast+
  from T have f: "df_filtered [2021] cleaned_example
       = (if [2021] = ([] :: int list) then cleaned_example
          else filter (\<lambda>r. year r \<in> set [2021]) cleaned_example)" by blast
  have le: "length cleaned_example = 4" by code_simp
  have te: "map (\<lambda>x. case x of None \<Rightarrow> NaT | Some t \<Rightarrow> Utc t)
              (reparse_utc pandas_ref cleaned_example)
       = [Utc \<lparr>cyear = 2019, cmonth = 1, cday = 1, chour = 0, cminute = 0, csecond = 0\<rparr>,
          NaT, NaT, NaT]" by code_simp
  have fe: "map idx (if [2021] = ([] :: int list) then cleaned_example
          else filter (\<lambda>r. year r \<in> set [2021]) cleaned_example) = [5]" by code_simp
  have k': "map (\<lambda>r. (idx r, username r, followers_count r, year r, weekday r)) (df_final ?ch)
       = map (\<lambda>r. (idx r, username r, followers_count r, year r, weekday r)) cleaned_example"
  proof -
    have "map (\<lambda>p. case p of (i, u, f, m, tp, y, mo, d, h, w, da) \<Rightarrow> (i, u, f, y, w))
            (map (\<lambda>r. (idx r, username r, followers_count r, media_count r, timestamp_parsed r,
                   year r, month r, day r, hour r, weekday r, date r)) (df_final ?ch))
        = map (\<lambda>p. case p of (i, u, f, m, tp, y, mo, d, h, w, da) \<Rightarrow> (i, u, f, y, w))
            (map (\<lambda>r. (idx r, username r, followers_count r, media_count r, timestamp_parsed r,
                       year r, month r, day r, hour r, weekday r, date r)) cleaned_example)"
      by (simp only: k)
    then show ?thesis by (simp add: comp_def)
  qed
  from l le t te f fe k' show ?thesis by simp
qed

end
